theory Spec2Isabelle
  imports Main "HOL-Library.Word"
begin

unbundle bit_operations_syntax

section \<open>Data model\<close>

text \<open>
  A Go \<open>float64\<close> is carried as its IEEE-754 bit pattern, the 64-bit word that
  \<open>math.Float64frombits\<close> turns into the value: the decoders only move these bits
  from the stream into the fields. A Go \<open>string\<close> and a \<open>[]uint8\<close> are byte
  sequences; the hexadecimal text handed to \<open>Scan\<close> is a \<open>string\<close> (one
  \<open>char\<close> is one byte), the decoded binary a list of 8-bit words.
\<close>

type_synonym byte = "8 word"
type_synonym float64 = "64 word"

record Point =
  Lng :: float64
  Lat :: float64

definition zero_Point :: Point where
  "zero_Point = \<lparr>Lng = 0, Lat = 0\<rparr>"

text \<open>
  A Go slice is either \<open>nil\<close> (the zero value of every slice-typed field) or allocated;
  \<open>len\<close> is 0 for \<open>nil\<close>, and \<open>range\<close> visits no element of it.
\<close>

datatype 'a slice = NilSlice | Slice "'a list"

fun elems :: "'a slice \<Rightarrow> 'a list" where
  "elems NilSlice = []"
| "elems (Slice xs) = xs"

definition len :: "'a slice \<Rightarrow> nat" where
  "len s = length (elems s)"

record LineString =
  Points :: "Point slice"

record Polygon =
  Rings :: "Point slice slice"

text \<open>
  \<open>Geometry\<close> is an interface with the single method \<open>String\<close>. Its values are
  non-nil pointers to the four shapes of the package, or a value of any other type
  with a \<open>String\<close> method, which the package can observe only through the text that
  method returns (\<open>GOther\<close>).
\<close>

datatype Geometry =
    GPoint Point
  | GLineString LineString
  | GPolygon Polygon
  | GCollection "Geometry slice"
  | GOther string

record GeometryCollection =
  Geometries :: "Geometry slice"

section \<open>Text encoders\<close>

text \<open>
  \<open>strings.Join\<close>, \<open>strings.Index\<close> for a one-byte separator (\<open>None\<close> is Go's
  \<open>-1\<close>). The verb \<open>%v\<close> of \<open>fmt.Sprintf\<close> on a \<open>float64\<close> belongs to Go's
  standard library and is a parameter \<open>fv\<close> of every encoder.
\<close>

fun strings_Join :: "string list \<Rightarrow> string \<Rightarrow> string" where
  "strings_Join [] sep = []"
| "strings_Join [x] sep = x"
| "strings_Join (x # y # ys) sep = x @ sep @ strings_Join (y # ys) sep"

fun strings_Index :: "string \<Rightarrow> char \<Rightarrow> nat option" where
  "strings_Index [] c = None"
| "strings_Index (x # xs) c =
     (if x = c then Some 0
      else (case strings_Index xs c of None \<Rightarrow> None | Some i \<Rightarrow> Some (Suc i)))"

definition point_text :: "(float64 \<Rightarrow> string) \<Rightarrow> Point \<Rightarrow> string" where
  "point_text fv pt = fv (Lng pt) @ '' '' @ fv (Lat pt)"

definition Point_String :: "(float64 \<Rightarrow> string) \<Rightarrow> Point \<Rightarrow> string" where
  "Point_String fv p = ''SRID=4326;POINT('' @ fv (Lng p) @ '' '' @ fv (Lat p) @ '')''"

definition LineString_String :: "(float64 \<Rightarrow> string) \<Rightarrow> LineString \<Rightarrow> string" where
  "LineString_String fv ls =
     (if len (Points ls) = 0 then ''SRID=4326;LINESTRING EMPTY''
      else ''SRID=4326;LINESTRING(''
           @ strings_Join (map (point_text fv) (elems (Points ls))) '','' @ '')'')"

definition ring_text :: "(float64 \<Rightarrow> string) \<Rightarrow> Point slice \<Rightarrow> string" where
  "ring_text fv ring = ''('' @ strings_Join (map (point_text fv) (elems ring)) '','' @ '')''"

definition Polygon_String :: "(float64 \<Rightarrow> string) \<Rightarrow> Polygon \<Rightarrow> string" where
  "Polygon_String fv p =
     (if len (Rings p) = 0 then ''SRID=4326;POLYGON EMPTY''
      else ''SRID=4326;POLYGON(''
           @ strings_Join (map (ring_text fv) (elems (Rings p))) '','' @ '')'')"

definition strip_srid :: "string \<Rightarrow> string" where
  "strip_srid str =
     (case strings_Index str (CHR '';'') of None \<Rightarrow> str | Some idx \<Rightarrow> drop (idx + 1) str)"

text \<open>
  The call \<open>g.String()\<close> on an element dispatches on its dynamic type; the case of a
  nested collection is the body of \<open>GeometryCollection.String\<close> itself.
\<close>

fun Geometry_String :: "(float64 \<Rightarrow> string) \<Rightarrow> Geometry \<Rightarrow> string" where
  "Geometry_String fv (GPoint p) = Point_String fv p"
| "Geometry_String fv (GLineString ls) = LineString_String fv ls"
| "Geometry_String fv (GPolygon p) = Polygon_String fv p"
| "Geometry_String fv (GOther s) = s"
| "Geometry_String fv (GCollection NilSlice) = ''SRID=4326;GEOMETRYCOLLECTION EMPTY''"
| "Geometry_String fv (GCollection (Slice gs)) =
     (if length gs = 0 then ''SRID=4326;GEOMETRYCOLLECTION EMPTY''
      else ''SRID=4326;GEOMETRYCOLLECTION(''
           @ strings_Join (map (\<lambda>g. strip_srid (Geometry_String fv g)) gs) '','' @ '')'')"

definition GeometryCollection_String ::
  "(float64 \<Rightarrow> string) \<Rightarrow> GeometryCollection \<Rightarrow> string" where
  "GeometryCollection_String fv gc = Geometry_String fv (GCollection (Geometries gc))"

section \<open>Errors and outcomes\<close>

text \<open>
  One constructor per error the decoders can return: the four \<open>fmt.Errorf\<close> call
  sites with the values they print, and the errors handed through from
  \<open>hex.DecodeString\<close> and \<open>binary.Read\<close>. \<open>InvalidByteOrder m None\<close> is the outer
  marker's error, \<open>InvalidByteOrder m (Some i)\<close> that of element \<open>i\<close> of a collection.
\<close>

datatype error =
    UnsupportedInputKind string string
  | HexInvalidByte char
  | HexErrLength
  | EOF
  | UnexpectedEOF
  | InvalidByteOrder byte "nat option"
  | TypeMismatch string nat
  | UnsupportedElementType nat

text \<open>
  What a call of \<open>Scan\<close> leaves behind: the error it returns (\<open>None\<close> is Go's
  \<open>nil\<close>) with the receiver as it stands after the call, or a run-time panic,
  here with the dynamic type of the offending value.
\<close>

datatype 'd outcome = Return "error option" 'd | Panic string

text \<open>
  The argument of \<open>Scan\<close> has type \<open>any\<close>: \<open>nil\<close>, a \<open>[]uint8\<close>, a
  \<open>string\<close>, or a value of another type, given by the name \<open>%T\<close> prints.
\<close>

datatype scan_value = VNil | VBytes string | VString string | VOther string

section \<open>Standard-library readers\<close>

text \<open>\<open>hex.DecodeString\<close>: pairs of hexadecimal digits of either case.\<close>

definition fromHexChar :: "char \<Rightarrow> byte option" where
  "fromHexChar c =
     (let n = (of_char c :: nat) in
      if 48 \<le> n \<and> n \<le> 57 then Some (of_nat (n - 48))
      else if 97 \<le> n \<and> n \<le> 102 then Some (of_nat (n - 97 + 10))
      else if 65 \<le> n \<and> n \<le> 70 then Some (of_nat (n - 65 + 10))
      else None)"

fun hex_DecodeString :: "string \<Rightarrow> error + byte list" where
  "hex_DecodeString [] = Inr []"
| "hex_DecodeString [p] =
     (case fromHexChar p of None \<Rightarrow> Inl (HexInvalidByte p) | Some a \<Rightarrow> Inl HexErrLength)"
| "hex_DecodeString (p # q # rest) =
     (case fromHexChar p of
        None \<Rightarrow> Inl (HexInvalidByte p)
      | Some a \<Rightarrow>
          (case fromHexChar q of
             None \<Rightarrow> Inl (HexInvalidByte q)
           | Some b \<Rightarrow>
               (case hex_DecodeString rest of
                  Inl e \<Rightarrow> Inl e
                | Inr bs \<Rightarrow> Inr ((push_bit 4 a OR b) # bs))))"

text \<open>
  \<open>binary.ByteOrder\<close>: \<open>LittleEndian\<close> puts the first byte lowest, \<open>BigEndian\<close>
  highest.
\<close>

datatype ByteOrder = BigEndian | LittleEndian

fun le_word :: "byte list \<Rightarrow> 'a::len word" where
  "le_word [] = 0"
| "le_word (b # bs) = ucast b OR push_bit 8 (le_word bs)"

fun order_word :: "ByteOrder \<Rightarrow> byte list \<Rightarrow> 'a::len word" where
  "order_word LittleEndian bs = le_word bs"
| "order_word BigEndian bs = le_word (rev bs)"

text \<open>
  A \<open>bytes.Reader\<close> is the list of bytes not yet read. \<open>io.ReadFull\<close> for \<open>n > 0\<close>
  bytes, as \<open>binary.Read\<close> calls it: \<open>EOF\<close> when nothing is left,
  \<open>UnexpectedEOF\<close> when fewer than \<open>n\<close> bytes are left.
\<close>

type_synonym reader = "byte list"

definition read_full :: "nat \<Rightarrow> reader \<Rightarrow> error + (byte list \<times> reader)" where
  "read_full n r =
     (if n \<le> length r then Inr (take n r, drop n r)
      else if r = [] then Inl EOF
      else Inl UnexpectedEOF)"

definition read_u8 :: "reader \<Rightarrow> error + (byte \<times> reader)" where
  "read_u8 r = (case r of [] \<Rightarrow> Inl EOF | b # r' \<Rightarrow> Inr (b, r'))"

definition read_u32 :: "ByteOrder \<Rightarrow> reader \<Rightarrow> error + (32 word \<times> reader)" where
  "read_u32 bo r =
     (case read_full 4 r of Inl e \<Rightarrow> Inl e | Inr (bs, r') \<Rightarrow> Inr (order_word bo bs, r'))"

definition read_u64 :: "ByteOrder \<Rightarrow> reader \<Rightarrow> error + (64 word \<times> reader)" where
  "read_u64 bo r =
     (case read_full 8 r of Inl e \<Rightarrow> Inl e | Inr (bs, r') \<Rightarrow> Inr (order_word bo bs, r'))"

definition read_f64 :: "ByteOrder \<Rightarrow> reader \<Rightarrow> error + (float64 \<times> reader)" where
  "read_f64 bo r =
     (case read_full 8 r of Inl e \<Rightarrow> Inl e | Inr (bs, r') \<Rightarrow> Inr (order_word bo bs, r'))"

section \<open>Binary decoders\<close>

text \<open>The switch on the byte-order marker that every decoder repeats.\<close>

definition byte_order_of :: "byte \<Rightarrow> ByteOrder option" where
  "byte_order_of m = (if m = 0 then Some BigEndian else if m = 1 then Some LittleEndian else None)"

text \<open>
  The common opening of the four \<open>Scan\<close> methods: hexadecimal decoding, the marker
  byte, the switch.
\<close>

definition wkb_open :: "string \<Rightarrow> error + (ByteOrder \<times> reader)" where
  "wkb_open decode =
     (case hex_DecodeString decode of
        Inl e \<Rightarrow> Inl e
      | Inr b \<Rightarrow>
          (case read_u8 b of
             Inl e \<Rightarrow> Inl e
           | Inr (wkbByteOrder, r) \<Rightarrow>
               (case byte_order_of wkbByteOrder of
                  None \<Rightarrow> Inl (InvalidByteOrder wkbByteOrder None)
                | Some byteOrder \<Rightarrow> Inr (byteOrder, r))))"

subsection \<open>Point\<close>

text \<open>
  \<open>Point.Scan\<close> converts with the unchecked assertion \<open>val.(string)\<close>, reads the
  8-byte type without comparing it, and reads the receiver as one 16-byte struct.
\<close>

definition Point_decode :: "string \<Rightarrow> Point \<Rightarrow> Point outcome" where
  "Point_decode decode p =
     (case wkb_open decode of
        Inl e \<Rightarrow> Return (Some e) p
      | Inr (byteOrder, r) \<Rightarrow>
          (case read_u64 byteOrder r of
             Inl e \<Rightarrow> Return (Some e) p
           | Inr (wkbGeometryType, r1) \<Rightarrow>
               (case read_full 16 r1 of
                  Inl e \<Rightarrow> Return (Some e) p
                | Inr (bs, r2) \<Rightarrow>
                    Return None (p\<lparr>Lng := order_word byteOrder (take 8 bs),
                                   Lat := order_word byteOrder (drop 8 bs)\<rparr>))))"

definition Point_Scan :: "scan_value \<Rightarrow> Point \<Rightarrow> Point outcome" where
  "Point_Scan val p =
     (case val of
        VNil \<Rightarrow> Return None p
      | VBytes uint8Val \<Rightarrow> Point_decode uint8Val p
      | VString v \<Rightarrow> Point_decode v p
      | VOther t \<Rightarrow> Panic t)"

subsection \<open>Coordinate and ring loops\<close>

text \<open>
  The loop \<open>for i := uint32(0); i < numPoints; i++\<close> over a slice made with
  \<open>numPoints\<close> zero points, writing \<open>Lng\<close> and then \<open>Lat\<close> of element \<open>i\<close> in
  place. It returns the slice as it stands when the loop ends or fails.
\<close>

function read_points :: "ByteOrder \<Rightarrow> nat \<Rightarrow> nat \<Rightarrow> reader \<Rightarrow> Point list
    \<Rightarrow> error option \<times> Point list \<times> reader" where
  "read_points bo i n r pts =
     (if i < n then
        (case read_f64 bo r of
           Inl e \<Rightarrow> (Some e, pts, r)
         | Inr (lng, r1) \<Rightarrow>
             (let pts1 = pts[i := (pts ! i)\<lparr>Lng := lng\<rparr>] in
              case read_f64 bo r1 of
                Inl e \<Rightarrow> (Some e, pts1, r1)
              | Inr (lat, r2) \<Rightarrow>
                  read_points bo (Suc i) n r2 (pts1[i := (pts1 ! i)\<lparr>Lat := lat\<rparr>])))
      else (None, pts, r))"
  by pat_completeness auto
termination
  by (relation "measure (\<lambda>(bo, i, n, r, pts). n - i)") auto

text \<open>
  The loop over rings: each round reads a point count, makes the ring and fills it.
  The outer slice starts as \<open>numRings\<close> nil rings.
\<close>

function read_rings :: "ByteOrder \<Rightarrow> nat \<Rightarrow> nat \<Rightarrow> reader \<Rightarrow> Point slice list
    \<Rightarrow> error option \<times> Point slice list \<times> reader" where
  "read_rings bo i n r rings =
     (if i < n then
        (case read_u32 bo r of
           Inl e \<Rightarrow> (Some e, rings, r)
         | Inr (numPoints, r1) \<Rightarrow>
             (case read_points bo 0 (unat numPoints) r1 (replicate (unat numPoints) zero_Point) of
                (Some e, pts, r2) \<Rightarrow> (Some e, rings[i := Slice pts], r2)
              | (None, pts, r2) \<Rightarrow> read_rings bo (Suc i) n r2 (rings[i := Slice pts])))
      else (None, rings, r))"
  by pat_completeness auto
termination
  by (relation "measure (\<lambda>(bo, i, n, r, rings). n - i)") auto

declare read_points.simps [simp del]
declare read_rings.simps [simp del]

subsection \<open>LineString\<close>

text \<open>The count and the coordinate pairs, after the type (and the SRID, if any).\<close>

definition LineString_body :: "ByteOrder \<Rightarrow> reader \<Rightarrow> LineString \<Rightarrow> LineString outcome" where
  "LineString_body byteOrder r ls =
     (case read_u32 byteOrder r of
        Inl e \<Rightarrow> Return (Some e) ls
      | Inr (numPoints, r1) \<Rightarrow>
          (case read_points byteOrder 0 (unat numPoints) r1
                  (replicate (unat numPoints) zero_Point) of
             (err, pts, r2) \<Rightarrow> Return err (ls\<lparr>Points := Slice pts\<rparr>)))"

definition LineString_decode :: "string \<Rightarrow> LineString \<Rightarrow> LineString outcome" where
  "LineString_decode decode ls =
     (case wkb_open decode of
        Inl e \<Rightarrow> Return (Some e) ls
      | Inr (byteOrder, r) \<Rightarrow>
          (case read_u32 byteOrder r of
             Inl e \<Rightarrow> Return (Some e) ls
           | Inr (wkbGeometryType, r1) \<Rightarrow>
               if wkbGeometryType AND 0x1FFFFFFF \<noteq> 2
               then Return (Some (TypeMismatch ''LineString'' (unat wkbGeometryType))) ls
               else if wkbGeometryType AND 0x20000000 \<noteq> 0
               then (case read_u32 byteOrder r1 of
                       Inl e \<Rightarrow> Return (Some e) ls
                     | Inr (srid, r2) \<Rightarrow> LineString_body byteOrder r2 ls)
               else LineString_body byteOrder r1 ls))"

definition LineString_Scan :: "scan_value \<Rightarrow> LineString \<Rightarrow> LineString outcome" where
  "LineString_Scan val ls =
     (case val of
        VNil \<Rightarrow> Return None ls
      | VBytes v \<Rightarrow> LineString_decode v ls
      | VString v \<Rightarrow> LineString_decode v ls
      | VOther t \<Rightarrow> Return (Some (UnsupportedInputKind t ''LineString'')) ls)"

subsection \<open>Polygon\<close>

definition Polygon_decode :: "string \<Rightarrow> Polygon \<Rightarrow> Polygon outcome" where
  "Polygon_decode decode p =
     (case wkb_open decode of
        Inl e \<Rightarrow> Return (Some e) p
      | Inr (byteOrder, r) \<Rightarrow>
          (case read_u64 byteOrder r of
             Inl e \<Rightarrow> Return (Some e) p
           | Inr (wkbGeometryType, r1) \<Rightarrow>
               if wkbGeometryType \<noteq> 3
               then Return (Some (TypeMismatch ''Polygon'' (unat wkbGeometryType))) p
               else
                 (case read_u32 byteOrder r1 of
                    Inl e \<Rightarrow> Return (Some e) p
                  | Inr (numRings, r2) \<Rightarrow>
                      (case read_rings byteOrder 0 (unat numRings) r2
                              (replicate (unat numRings) NilSlice) of
                         (err, rings, r3) \<Rightarrow> Return err (p\<lparr>Rings := Slice rings\<rparr>)))))"

definition Polygon_Scan :: "scan_value \<Rightarrow> Polygon \<Rightarrow> Polygon outcome" where
  "Polygon_Scan val p =
     (case val of
        VNil \<Rightarrow> Return None p
      | VBytes v \<Rightarrow> Polygon_decode v p
      | VString v \<Rightarrow> Polygon_decode v p
      | VOther t \<Rightarrow> Return (Some (UnsupportedInputKind t ''Polygon'')) p)"

subsection \<open>GeometryCollection\<close>

text \<open>
  One round of the element loop up to the \<open>append\<close>. The element is built in local
  variables, so a failed round leaves nothing behind. First the part after the
  element's marker: the 8-byte type and the body it selects, all read in the element's
  own order.
\<close>

definition read_geometry_body :: "ByteOrder \<Rightarrow> reader \<Rightarrow> error + (Geometry \<times> reader)" where
  "read_geometry_body geomOrder r1 =
     (case read_u64 geomOrder r1 of
        Inl e \<Rightarrow> Inl e
      | Inr (geomType, r2) \<Rightarrow>
          if geomType = 1 then
            (case read_f64 geomOrder r2 of
               Inl e \<Rightarrow> Inl e
             | Inr (lng, r3) \<Rightarrow>
                 (case read_f64 geomOrder r3 of
                    Inl e \<Rightarrow> Inl e
                  | Inr (lat, r4) \<Rightarrow> Inr (GPoint \<lparr>Lng = lng, Lat = lat\<rparr>, r4)))
          else if geomType = 2 then
            (case read_u32 geomOrder r2 of
               Inl e \<Rightarrow> Inl e
             | Inr (numPoints, r3) \<Rightarrow>
                 (case read_points geomOrder 0 (unat numPoints) r3
                         (replicate (unat numPoints) zero_Point) of
                    (Some e, pts, r4) \<Rightarrow> Inl e
                  | (None, pts, r4) \<Rightarrow> Inr (GLineString \<lparr>Points = Slice pts\<rparr>, r4)))
          else if geomType = 3 then
            (case read_u32 geomOrder r2 of
               Inl e \<Rightarrow> Inl e
             | Inr (numRings, r3) \<Rightarrow>
                 (case read_rings geomOrder 0 (unat numRings) r3
                         (replicate (unat numRings) NilSlice) of
                    (Some e, rings, r4) \<Rightarrow> Inl e
                  | (None, rings, r4) \<Rightarrow> Inr (GPolygon \<lparr>Rings = Slice rings\<rparr>, r4)))
          else Inl (UnsupportedElementType (unat geomType)))"

text \<open>The marker of element \<open>i\<close> and its switch, then the rest of the round.\<close>

definition read_geometry :: "nat \<Rightarrow> reader \<Rightarrow> error + (Geometry \<times> reader)" where
  "read_geometry i r =
     (case read_u8 r of
        Inl e \<Rightarrow> Inl e
      | Inr (geomByteOrder, r1) \<Rightarrow>
          (case byte_order_of geomByteOrder of
             None \<Rightarrow> Inl (InvalidByteOrder geomByteOrder (Some i))
           | Some geomOrder \<Rightarrow> read_geometry_body geomOrder r1))"

text \<open>The element loop: every successful round appends to \<open>gc.Geometries\<close>.\<close>

function read_geometries :: "nat \<Rightarrow> nat \<Rightarrow> reader \<Rightarrow> Geometry list
    \<Rightarrow> error option \<times> Geometry list \<times> reader" where
  "read_geometries i n r gs =
     (if i < n then
        (case read_geometry i r of
           Inl e \<Rightarrow> (Some e, gs, r)
         | Inr (g, r') \<Rightarrow> read_geometries (Suc i) n r' (gs @ [g]))
      else (None, gs, r))"
  by pat_completeness auto
termination
  by (relation "measure (\<lambda>(i, n, r, gs). n - i)") auto

declare read_geometries.simps [simp del]

definition GeometryCollection_decode ::
  "string \<Rightarrow> GeometryCollection \<Rightarrow> GeometryCollection outcome" where
  "GeometryCollection_decode decode gc =
     (case wkb_open decode of
        Inl e \<Rightarrow> Return (Some e) gc
      | Inr (byteOrder, r) \<Rightarrow>
          (case read_u64 byteOrder r of
             Inl e \<Rightarrow> Return (Some e) gc
           | Inr (wkbGeometryType, r1) \<Rightarrow>
               if wkbGeometryType \<noteq> 7
               then Return (Some (TypeMismatch ''GeometryCollection'' (unat wkbGeometryType))) gc
               else
                 (case read_u32 byteOrder r1 of
                    Inl e \<Rightarrow> Return (Some e) gc
                  | Inr (numGeometries, r2) \<Rightarrow>
                      (case read_geometries 0 (unat numGeometries) r2 [] of
                         (err, gs, r3) \<Rightarrow> Return err (gc\<lparr>Geometries := Slice gs\<rparr>)))))"

definition GeometryCollection_Scan ::
  "scan_value \<Rightarrow> GeometryCollection \<Rightarrow> GeometryCollection outcome" where
  "GeometryCollection_Scan val gc =
     (case val of
        VNil \<Rightarrow> Return None gc
      | VBytes v \<Rightarrow> GeometryCollection_decode v gc
      | VString v \<Rightarrow> GeometryCollection_decode v gc
      | VOther t \<Rightarrow> Return (Some (UnsupportedInputKind t ''GeometryCollection'')) gc)"

section \<open>The stream, front to back\<close>

text \<open>
  The layout the format declares, read in stream order and independently of the loops
  above: \<open>n\<close> coordinate pairs of 16 bytes each; \<open>n\<close> rings, each a 4-byte count
  (kept with the ring) and that many pairs; \<open>n\<close> collection elements. The first
  item in the stream is the head of the list.
\<close>

fun stream_points :: "ByteOrder \<Rightarrow> nat \<Rightarrow> reader \<Rightarrow> (Point list \<times> reader) option" where
  "stream_points bo 0 r = Some ([], r)"
| "stream_points bo (Suc n) r =
     (if length r < 16 then None
      else (case stream_points bo n (drop 16 r) of
              None \<Rightarrow> None
            | Some (ps, r') \<Rightarrow>
                Some (\<lparr>Lng = order_word bo (take 8 r),
                       Lat = order_word bo (take 8 (drop 8 r))\<rparr> # ps, r')))"

fun stream_rings :: "ByteOrder \<Rightarrow> nat \<Rightarrow> reader
    \<Rightarrow> ((32 word \<times> Point list) list \<times> reader) option" where
  "stream_rings bo 0 r = Some ([], r)"
| "stream_rings bo (Suc n) r =
     (if length r < 4 then None
      else (case stream_points bo (unat (order_word bo (take 4 r) :: 32 word)) (drop 4 r) of
              None \<Rightarrow> None
            | Some (ps, r1) \<Rightarrow>
                (case stream_rings bo n r1 of
                   None \<Rightarrow> None
                 | Some (rs, r2) \<Rightarrow> Some ((order_word bo (take 4 r), ps) # rs, r2))))"

fun stream_geometries :: "nat \<Rightarrow> nat \<Rightarrow> reader \<Rightarrow> (Geometry list \<times> reader) option" where
  "stream_geometries i 0 r = Some ([], r)"
| "stream_geometries i (Suc k) r =
     (case read_geometry i r of
        Inl e \<Rightarrow> None
      | Inr (g, r1) \<Rightarrow>
          (case stream_geometries (Suc i) k r1 of
             None \<Rightarrow> None
           | Some (gs, r2) \<Rightarrow> Some (g # gs, r2)))"

section \<open>A sample formatter\<close>

text \<open>
  An instance of the formatter parameter that agrees with Go's \<open>%v\<close> on the floats
  0, 1 and 2 (bit patterns \<open>0\<close>, \<open>0x3FF0000000000000\<close>, \<open>0x4000000000000000\<close>),
  the values the repository's encoder tests print. It is used at concrete inputs only.
\<close>

definition fv_sample :: "float64 \<Rightarrow> string" where
  "fv_sample w =
     (if w = 0 then ''0''
      else if w = 0x3FF0000000000000 then ''1''
      else if w = 0x4000000000000000 then ''2''
      else ''?'')"

section \<open>Sample streams\<close>

text \<open>
  Hexadecimal streams for the concrete instances below, written field by field:
  \<^item> \<open>wkb_linestring_srid\<close>: a little-endian LineString with the SRID flag and
    SRID 4326, of the points (3 1), (1 2);
  \<^item> \<open>wkb_linestring_srid_other\<close>: the same with other bytes in the SRID field;
  \<^item> \<open>wkb_linestring_plain\<close>: the same without flag and SRID;
  \<^item> \<open>wkb_point_srid\<close>: a little-endian 4-byte type 1 with the SRID flag, and
    SRID 4326;
  \<^item> \<open>wkb_polygon\<close>: a big-endian Polygon of three rings, ((3 1), (1 2)), () and
    ((2 0));
  \<^item> \<open>wkb_collection\<close>: a little-endian collection of a big-endian Point (2 0), a
    little-endian LineString (0 0), (1 1) and a big-endian Polygon of the rings
    ((3 1)) and ();
  \<^item> \<open>wkb_collection_nested\<close>: a collection that declares two elements, a Point
    (2 0) and an element of type 7;
  \<^item> \<open>wkb_collection_marker\<close>: a collection that declares two elements, a
    big-endian Point (2 0) and an element with the marker 2;
  \<^item> \<open>wkb_point_le\<close>, \<open>wkb_point_be\<close>: the point of the repository's
    \<open>TestPointScan\<close> and \<open>TestPointScanBigEndian\<close>, the same coordinates in
    little-endian and in big-endian layout.

  \<open>after_marker\<close> is the binary content of a stream behind its first byte.
\<close>

definition wkb_linestring_srid :: string where
  "wkb_linestring_srid =
     ''01'' @ ''02000020'' @ ''e6100000'' @ ''02000000'' @ ''0000000000000840''
     @ ''000000000000f03f'' @ ''000000000000f03f'' @ ''0000000000000040''"

definition wkb_linestring_srid_other :: string where
  "wkb_linestring_srid_other =
     ''01'' @ ''02000020'' @ ''ffffffff'' @ ''02000000'' @ ''0000000000000840''
     @ ''000000000000f03f'' @ ''000000000000f03f'' @ ''0000000000000040''"

definition wkb_linestring_plain :: string where
  "wkb_linestring_plain =
     ''01'' @ ''02000000'' @ ''02000000'' @ ''0000000000000840'' @ ''000000000000f03f''
     @ ''000000000000f03f'' @ ''0000000000000040''"

definition wkb_point_srid :: string where
  "wkb_point_srid =
     ''01'' @ ''01000020'' @ ''e6100000''"

definition wkb_polygon :: string where
  "wkb_polygon =
     ''00'' @ ''0000000000000003'' @ ''00000003'' @ ''00000002'' @ ''4008000000000000''
     @ ''3ff0000000000000'' @ ''3ff0000000000000'' @ ''4000000000000000'' @ ''00000000''
     @ ''00000001'' @ ''4000000000000000'' @ ''0000000000000000''"

definition wkb_collection :: string where
  "wkb_collection =
     ''01'' @ ''0700000000000000'' @ ''03000000'' @ ''00'' @ ''0000000000000001''
     @ ''4000000000000000'' @ ''0000000000000000'' @ ''01'' @ ''0200000000000000''
     @ ''02000000'' @ ''0000000000000000'' @ ''0000000000000000'' @ ''000000000000f03f''
     @ ''000000000000f03f'' @ ''00'' @ ''0000000000000003'' @ ''00000002'' @ ''00000001''
     @ ''4008000000000000'' @ ''3ff0000000000000'' @ ''00000000''"

definition wkb_collection_nested :: string where
  "wkb_collection_nested =
     ''01'' @ ''0700000000000000'' @ ''02000000'' @ ''01'' @ ''0100000000000000''
     @ ''0000000000000040'' @ ''0000000000000000'' @ ''01'' @ ''0700000000000000''
     @ ''00000000''"

definition wkb_collection_marker :: string where
  "wkb_collection_marker =
     ''01'' @ ''0700000000000000'' @ ''02000000'' @ ''00'' @ ''0000000000000001''
     @ ''4000000000000000'' @ ''0000000000000000'' @ ''02''"

definition wkb_point_le :: string where
  "wkb_point_le =
     ''01'' @ ''0100000000000000'' @ ''00289150b3952640'' @ ''1288638860e24540''"

definition wkb_point_be :: string where
  "wkb_point_be =
     ''00'' @ ''0000000000000001'' @ ''402695b350912800'' @ ''4045e26088638812''"

definition after_marker :: "string \<Rightarrow> byte list" where
  "after_marker s = (case hex_DecodeString s of Inr (m # r) \<Rightarrow> r | _ \<Rightarrow> [])"

section \<open>Properties of the text encoders\<close>

lemma strings_Index_None: "strings_Index s c = None \<longleftrightarrow> c \<notin> set s"
  by (induction s) (auto split: option.splits)

lemma strings_Index_first:
  "c \<notin> set a \<Longrightarrow> strings_Index (a @ c # b) c = Some (length a)"
  by (induction a) auto

lemma strip_srid_none: "CHR '';'' \<notin> set t \<Longrightarrow> strip_srid t = t"
proof -
  assume "CHR '';'' \<notin> set t"
  then have "strings_Index t (CHR '';'') = None"
    by (simp add: strings_Index_None)
  then show ?thesis
    by (simp add: strip_srid_def)
qed

lemma strip_srid_first: "CHR '';'' \<notin> set a \<Longrightarrow> strip_srid (a @ CHR '';'' # b) = b"
  by (simp add: strip_srid_def strings_Index_first)

text \<open>
  \<open>GeometryCollection.String\<close> as the source writes it, on \<open>len\<close> and \<open>range\<close> of
  the field.
\<close>

lemma GeometryCollection_String_unfold:
  "GeometryCollection_String fv gc =
     (if len (Geometries gc) = 0 then ''SRID=4326;GEOMETRYCOLLECTION EMPTY''
      else ''SRID=4326;GEOMETRYCOLLECTION(''
           @ strings_Join (map (\<lambda>g. strip_srid (Geometry_String fv g)) (elems (Geometries gc))) '',''
           @ '')'')"
  by (cases "Geometries gc") (simp_all add: GeometryCollection_String_def len_def)

text \<open>
  C10: \<open>Point.String\<close> has no EMPTY branch. For every point it returns
  \<open>SRID=4326;POINT(\<close>, the longitude, one space, the latitude and \<open>)\<close>, which is never
  the text \<open>SRID=4326;POINT EMPTY\<close>; and where \<open>%v\<close> prints the float zero as
  \<open>0\<close> (as Go's does), the zero-valued point is exactly \<open>SRID=4326;POINT(0 0)\<close>.
\<close>

theorem Point_String_has_no_EMPTY:
  "Point_String fv p = ''SRID=4326;POINT('' @ fv (Lng p) @ '' '' @ fv (Lat p) @ '')''
   \<and> Point_String fv p \<noteq> ''SRID=4326;POINT EMPTY''
   \<and> (fv 0 = ''0'' \<longrightarrow> Point_String fv zero_Point = ''SRID=4326;POINT(0 0)'')"
  by (simp add: Point_String_def zero_Point_def)

theorem Point_String_has_no_EMPTY_witness:
  "fv_sample 0 = ''0''
   \<and> Point_String fv_sample zero_Point = ''SRID=4326;POINT(0 0)''
   \<and> Point_String fv_sample \<lparr>Lng = 0x4000000000000000, Lat = 0\<rparr> = ''SRID=4326;POINT(2 0)''"
  using Point_String_has_no_EMPTY [of fv_sample "\<lparr>Lng = 0x4000000000000000, Lat = 0\<rparr>"]
  by (simp add: fv_sample_def)

text \<open>
  C6: a LineString, Polygon or GeometryCollection whose sequence has length zero
  encodes as the prefix, the keyword and the literal EMPTY; a nil slice and an allocated
  empty slice both have length zero, so both render the same text.
\<close>

theorem zero_length_renders_EMPTY:
  "(len (Points ls) = 0 \<longrightarrow> LineString_String fv ls = ''SRID=4326;LINESTRING EMPTY'')
   \<and> (len (Rings p) = 0 \<longrightarrow> Polygon_String fv p = ''SRID=4326;POLYGON EMPTY'')
   \<and> (len (Geometries gc) = 0 \<longrightarrow>
        GeometryCollection_String fv gc = ''SRID=4326;GEOMETRYCOLLECTION EMPTY'')
   \<and> len (NilSlice :: 'a slice) = 0 \<and> len (Slice [] :: 'a slice) = 0"
  by (simp add: LineString_String_def Polygon_String_def GeometryCollection_String_unfold len_def)

theorem zero_length_renders_EMPTY_witness:
  "LineString_String fv_sample \<lparr>Points = NilSlice\<rparr> = ''SRID=4326;LINESTRING EMPTY''
   \<and> LineString_String fv_sample \<lparr>Points = Slice []\<rparr> = ''SRID=4326;LINESTRING EMPTY''
   \<and> Polygon_String fv_sample \<lparr>Rings = NilSlice\<rparr> = ''SRID=4326;POLYGON EMPTY''
   \<and> Polygon_String fv_sample \<lparr>Rings = Slice []\<rparr> = ''SRID=4326;POLYGON EMPTY''
   \<and> GeometryCollection_String fv_sample \<lparr>Geometries = NilSlice\<rparr>
        = ''SRID=4326;GEOMETRYCOLLECTION EMPTY''
   \<and> GeometryCollection_String fv_sample \<lparr>Geometries = Slice []\<rparr>
        = ''SRID=4326;GEOMETRYCOLLECTION EMPTY''"
  using zero_length_renders_EMPTY
          [of "\<lparr>Points = NilSlice\<rparr>" fv_sample "\<lparr>Rings = NilSlice\<rparr>" "\<lparr>Geometries = NilSlice\<rparr>"]
        zero_length_renders_EMPTY
          [of "\<lparr>Points = Slice []\<rparr>" fv_sample "\<lparr>Rings = Slice []\<rparr>" "\<lparr>Geometries = Slice []\<rparr>"]
  by (simp add: len_def)

lemma strings_Join_Cons:
  "strings_Join (x # xs) sep = x @ concat (map (\<lambda>y. sep @ y) xs)"
  by (induction xs arbitrary: x) simp_all

lemma strip_srid_prefix: "strip_srid (''SRID=4326;'' @ b) = b"
  using strip_srid_first [of "''SRID=4326''" b] by simp

lemma LineString_String_text:
  "LineString_String fv ls =
     (case elems (Points ls) of
        [] \<Rightarrow> ''SRID=4326;LINESTRING EMPTY''
      | q # qs \<Rightarrow>
          ''SRID=4326;LINESTRING('' @ fv (Lng q) @ '' '' @ fv (Lat q)
          @ concat (map (\<lambda>p. '','' @ fv (Lng p) @ '' '' @ fv (Lat p)) qs) @ '')'')"
  by (cases "elems (Points ls)")
     (simp_all add: LineString_String_def len_def strings_Join_Cons point_text_def comp_def)

lemma ring_text_text:
  "ring_text fv ring =
     (case elems ring of
        [] \<Rightarrow> ''()''
      | q # qs \<Rightarrow>
          ''('' @ fv (Lng q) @ '' '' @ fv (Lat q)
          @ concat (map (\<lambda>p. '','' @ fv (Lng p) @ '' '' @ fv (Lat p)) qs) @ '')'')"
  by (cases "elems ring") (simp_all add: ring_text_def strings_Join_Cons point_text_def comp_def)

lemma Polygon_String_text:
  "Polygon_String fv pg =
     (case elems (Rings pg) of
        [] \<Rightarrow> ''SRID=4326;POLYGON EMPTY''
      | r # rs \<Rightarrow>
          ''SRID=4326;POLYGON('' @ ring_text fv r
          @ concat (map (\<lambda>r. '','' @ ring_text fv r) rs) @ '')'')"
  by (cases "elems (Rings pg)") (simp_all add: Polygon_String_def len_def strings_Join_Cons comp_def)

lemma GeometryCollection_String_text:
  "GeometryCollection_String fv gc =
     (case elems (Geometries gc) of
        [] \<Rightarrow> ''SRID=4326;GEOMETRYCOLLECTION EMPTY''
      | g # gs \<Rightarrow>
          ''SRID=4326;GEOMETRYCOLLECTION('' @ strip_srid (Geometry_String fv g)
          @ concat (map (\<lambda>h. '','' @ strip_srid (Geometry_String fv h)) gs) @ '')'')"
  by (cases "elems (Geometries gc)")
     (simp_all add: GeometryCollection_String_unfold len_def strings_Join_Cons comp_def)

text \<open>
  C7: a non-empty GeometryCollection encodes as \<open>SRID=4326;GEOMETRYCOLLECTION(\<close>, the
  texts of its elements in order with one comma between neighbours, and \<open>)\<close>. The text
  of an element is what its own \<open>String\<close> returns, which for a Point, a LineString, a
  Polygon and a nested collection is the text of \<open>Point.String\<close>,
  \<open>LineString.String\<close>, \<open>Polygon.String\<close> and \<open>GeometryCollection.String\<close>, each
  spelled out here, with everything up to and including the first \<open>;\<close> removed; a
  text that holds no \<open>;\<close> is kept whole. For the four shapes what is removed is the
  prefix \<open>SRID=4326;\<close>.
\<close>

theorem collection_text_strips_child_prefix:
  "(elems (Geometries gc) \<noteq> [] \<longrightarrow>
      GeometryCollection_String fv gc =
        ''SRID=4326;GEOMETRYCOLLECTION(''
        @ strings_Join (map (\<lambda>g. strip_srid (Geometry_String fv g)) (elems (Geometries gc))) '',''
        @ '')'')
   \<and> (CHR '';'' \<notin> set a \<longrightarrow> strip_srid (a @ CHR '';'' # b) = b)
   \<and> (CHR '';'' \<notin> set t \<longrightarrow> strip_srid t = t)
   \<and> strings_Join [] sep = []
   \<and> strings_Join (x # xs) sep = x @ concat (map (\<lambda>y. sep @ y) xs)
   \<and> (elems (Geometries gc) = g # gs \<longrightarrow>
        GeometryCollection_String fv gc =
          ''SRID=4326;GEOMETRYCOLLECTION('' @ strip_srid (Geometry_String fv g)
          @ concat (map (\<lambda>h. '','' @ strip_srid (Geometry_String fv h)) gs) @ '')'')
   \<and> Geometry_String fv (GPoint p) = Point_String fv p
   \<and> Geometry_String fv (GLineString ls) = LineString_String fv ls
   \<and> Geometry_String fv (GPolygon pg) = Polygon_String fv pg
   \<and> Geometry_String fv (GCollection sub) = GeometryCollection_String fv \<lparr>Geometries = sub\<rparr>
   \<and> Geometry_String fv (GOther txt) = txt
   \<and> Point_String fv p = ''SRID=4326;POINT('' @ fv (Lng p) @ '' '' @ fv (Lat p) @ '')''
   \<and> LineString_String fv ls =
        (case elems (Points ls) of
           [] \<Rightarrow> ''SRID=4326;LINESTRING EMPTY''
         | q # qs \<Rightarrow>
             ''SRID=4326;LINESTRING('' @ fv (Lng q) @ '' '' @ fv (Lat q)
             @ concat (map (\<lambda>p. '','' @ fv (Lng p) @ '' '' @ fv (Lat p)) qs) @ '')'')
   \<and> Polygon_String fv pg =
        (case elems (Rings pg) of
           [] \<Rightarrow> ''SRID=4326;POLYGON EMPTY''
         | r # rs \<Rightarrow>
             ''SRID=4326;POLYGON('' @ ring_text fv r
             @ concat (map (\<lambda>r. '','' @ ring_text fv r) rs) @ '')'')
   \<and> ring_text fv ring =
        (case elems ring of
           [] \<Rightarrow> ''()''
         | q # qs \<Rightarrow>
             ''('' @ fv (Lng q) @ '' '' @ fv (Lat q)
             @ concat (map (\<lambda>p. '','' @ fv (Lng p) @ '' '' @ fv (Lat p)) qs) @ '')'')
   \<and> elems (NilSlice :: Geometry slice) = [] \<and> elems (Slice es) = es
   \<and> strip_srid (''SRID=4326;'' @ b) = b"
proof (intro conjI impI)
  assume "elems (Geometries gc) \<noteq> []"
  then show "GeometryCollection_String fv gc =
        ''SRID=4326;GEOMETRYCOLLECTION(''
        @ strings_Join (map (\<lambda>g. strip_srid (Geometry_String fv g)) (elems (Geometries gc))) '',''
        @ '')''"
    by (simp add: GeometryCollection_String_unfold len_def)
next
  assume "CHR '';'' \<notin> set a"
  then show "strip_srid (a @ CHR '';'' # b) = b" by (rule strip_srid_first)
next
  assume "CHR '';'' \<notin> set t"
  then show "strip_srid t = t" by (rule strip_srid_none)
next
  show "strings_Join [] sep = []" by simp
next
  show "strings_Join (x # xs) sep = x @ concat (map (\<lambda>y. sep @ y) xs)"
    by (rule strings_Join_Cons)
next
  assume "elems (Geometries gc) = g # gs"
  then show "GeometryCollection_String fv gc =
          ''SRID=4326;GEOMETRYCOLLECTION('' @ strip_srid (Geometry_String fv g)
          @ concat (map (\<lambda>h. '','' @ strip_srid (Geometry_String fv h)) gs) @ '')''"
    by (simp add: GeometryCollection_String_text)
next
  show "Geometry_String fv (GPoint p) = Point_String fv p" by simp
next
  show "Geometry_String fv (GLineString ls) = LineString_String fv ls" by simp
next
  show "Geometry_String fv (GPolygon pg) = Polygon_String fv pg" by simp
next
  show "Geometry_String fv (GCollection sub) = GeometryCollection_String fv \<lparr>Geometries = sub\<rparr>"
    by (simp add: GeometryCollection_String_def)
next
  show "Geometry_String fv (GOther txt) = txt" by simp
next
  show "Point_String fv p = ''SRID=4326;POINT('' @ fv (Lng p) @ '' '' @ fv (Lat p) @ '')''"
    by (simp add: Point_String_def)
next
  show "LineString_String fv ls =
        (case elems (Points ls) of
           [] \<Rightarrow> ''SRID=4326;LINESTRING EMPTY''
         | q # qs \<Rightarrow>
             ''SRID=4326;LINESTRING('' @ fv (Lng q) @ '' '' @ fv (Lat q)
             @ concat (map (\<lambda>p. '','' @ fv (Lng p) @ '' '' @ fv (Lat p)) qs) @ '')'')"
    by (rule LineString_String_text)
next
  show "Polygon_String fv pg =
        (case elems (Rings pg) of
           [] \<Rightarrow> ''SRID=4326;POLYGON EMPTY''
         | r # rs \<Rightarrow>
             ''SRID=4326;POLYGON('' @ ring_text fv r
             @ concat (map (\<lambda>r. '','' @ ring_text fv r) rs) @ '')'')"
    by (rule Polygon_String_text)
next
  show "ring_text fv ring =
        (case elems ring of
           [] \<Rightarrow> ''()''
         | q # qs \<Rightarrow>
             ''('' @ fv (Lng q) @ '' '' @ fv (Lat q)
             @ concat (map (\<lambda>p. '','' @ fv (Lng p) @ '' '' @ fv (Lat p)) qs) @ '')'')"
    by (rule ring_text_text)
next
  show "elems (NilSlice :: Geometry slice) = []" by simp
next
  show "elems (Slice es) = es" by simp
next
  show "strip_srid (''SRID=4326;'' @ b) = b" by (rule strip_srid_prefix)
qed

theorem collection_text_strips_child_prefix_witness:
  "GeometryCollection_String fv_sample
     \<lparr>Geometries = Slice
        [GPoint \<lparr>Lng = 0x4000000000000000, Lat = 0\<rparr>,
         GLineString \<lparr>Points = Slice [\<lparr>Lng = 0, Lat = 0\<rparr>,
            \<lparr>Lng = 0x3FF0000000000000, Lat = 0x3FF0000000000000\<rparr>]\<rparr>,
         GPolygon \<lparr>Rings = Slice [Slice [\<lparr>Lng = 0, Lat = 0\<rparr>,
            \<lparr>Lng = 0x3FF0000000000000, Lat = 0\<rparr>], Slice []]\<rparr>,
         GCollection (Slice [GPoint \<lparr>Lng = 0, Lat = 0x4000000000000000\<rparr>]),
         GCollection NilSlice,
         GOther ''no prefix'']\<rparr>
   = ''SRID=4326;GEOMETRYCOLLECTION(POINT(2 0),LINESTRING(0 0,1 1),POLYGON((0 0,1 0),()),''
     @ ''GEOMETRYCOLLECTION(POINT(0 2)),GEOMETRYCOLLECTION EMPTY,no prefix)''
   \<and> strip_srid ''SRID=4326;POINT(2 0)'' = ''POINT(2 0)''
   \<and> strip_srid ''no prefix'' = ''no prefix''"
proof -
  let ?g = "GPoint \<lparr>Lng = 0x4000000000000000, Lat = 0\<rparr>"
  let ?gs = "[GLineString \<lparr>Points = Slice [\<lparr>Lng = 0, Lat = 0\<rparr>,
            \<lparr>Lng = 0x3FF0000000000000, Lat = 0x3FF0000000000000\<rparr>]\<rparr>,
         GPolygon \<lparr>Rings = Slice [Slice [\<lparr>Lng = 0, Lat = 0\<rparr>,
            \<lparr>Lng = 0x3FF0000000000000, Lat = 0\<rparr>], Slice []]\<rparr>,
         GCollection (Slice [GPoint \<lparr>Lng = 0, Lat = 0x4000000000000000\<rparr>]),
         GCollection NilSlice,
         GOther ''no prefix'']"
  let ?gc = "\<lparr>Geometries = Slice (?g # ?gs)\<rparr>"
  note inst = collection_text_strips_child_prefix
    [where gc = ?gc and fv = fv_sample and g = ?g and gs = ?gs and a = "''SRID=4326''"
       and b = "''POINT(2 0)''" and t = "''no prefix''"]
  have e: "elems (Geometries ?gc) = ?g # ?gs"
    by simp
  have semi: "CHR '';'' \<notin> set ''SRID=4326''" "CHR '';'' \<notin> set ''no prefix''"
    by simp_all
  from inst [THEN conjunct2, THEN conjunct2, THEN conjunct2, THEN conjunct2, THEN conjunct2,
      THEN conjunct1, THEN mp, OF e]
  have "GeometryCollection_String fv_sample ?gc =
          ''SRID=4326;GEOMETRYCOLLECTION('' @ strip_srid (Geometry_String fv_sample ?g)
          @ concat (map (\<lambda>h. '','' @ strip_srid (Geometry_String fv_sample h)) ?gs) @ '')''" .
  also have "\<dots> = ''SRID=4326;GEOMETRYCOLLECTION(POINT(2 0),LINESTRING(0 0,1 1),POLYGON((0 0,1 0),()),''
     @ ''GEOMETRYCOLLECTION(POINT(0 2)),GEOMETRYCOLLECTION EMPTY,no prefix)''"
    by code_simp
  finally have whole: "GeometryCollection_String fv_sample ?gc
    = ''SRID=4326;GEOMETRYCOLLECTION(POINT(2 0),LINESTRING(0 0,1 1),POLYGON((0 0,1 0),()),''
     @ ''GEOMETRYCOLLECTION(POINT(0 2)),GEOMETRYCOLLECTION EMPTY,no prefix)''" .
  from inst [THEN conjunct2, THEN conjunct1, THEN mp, OF semi(1)]
  have s1: "strip_srid ''SRID=4326;POINT(2 0)'' = ''POINT(2 0)''" by simp
  from inst [THEN conjunct2, THEN conjunct2, THEN conjunct1, THEN mp, OF semi(2)]
  have s2: "strip_srid ''no prefix'' = ''no prefix''" .
  from whole s1 s2 show ?thesis by simp
qed

section \<open>Properties of the readers and the loops\<close>

lemma Point_update_both: "p\<lparr>Lng := a, Lat := b\<rparr> = \<lparr>Lng = a, Lat = b\<rparr>" for p :: Point
  by (cases p) simp

text \<open>
  The two orders on four bytes, as \<open>binary.BigEndian.Uint32\<close> and
  \<open>binary.LittleEndian.Uint32\<close> compute them.
\<close>

lemma order_word_32:
  "(order_word BigEndian [a, b, c, d] :: 32 word)
     = push_bit 24 (ucast a) OR push_bit 16 (ucast b) OR push_bit 8 (ucast c) OR ucast d"
  "(order_word LittleEndian [a, b, c, d] :: 32 word)
     = ucast a OR push_bit 8 (ucast b) OR push_bit 16 (ucast c) OR push_bit 24 (ucast d)"
  by (simp_all add: or.assoc or.commute or.left_commute)

lemma read_f64_Inr:
  "read_f64 bo r = Inr (v, r') \<longleftrightarrow> 8 \<le> length r \<and> v = order_word bo (take 8 r) \<and> r' = drop 8 r"
  by (auto simp: read_f64_def read_full_def)

lemma read_u32_Inr:
  "read_u32 bo r = Inr (v, r') \<longleftrightarrow> 4 \<le> length r \<and> v = order_word bo (take 4 r) \<and> r' = drop 4 r"
  by (auto simp: read_u32_def read_full_def)

lemma read_u64_Inr:
  "read_u64 bo r = Inr (v, r') \<longleftrightarrow> 8 \<le> length r \<and> v = order_word bo (take 8 r) \<and> r' = drop 8 r"
  by (auto simp: read_u64_def read_full_def)

lemma read_points_stream:
  "length pts = n \<Longrightarrow> i + k = n \<Longrightarrow> read_points bo i n r pts = (None, pts', r')
   \<Longrightarrow> \<exists>ps. stream_points bo k r = Some (ps, r') \<and> pts' = take i pts @ ps"
proof (induction k arbitrary: i r pts)
  case 0
  then show ?case by (simp add: read_points.simps)
next
  case (Suc k)
  from Suc.prems have lt: "i < n" by simp
  from Suc.prems(3) lt obtain lng r1 where r1: "read_f64 bo r = Inr (lng, r1)"
    by (subst (asm) read_points.simps) (auto split: sum.splits)
  from Suc.prems(3) lt r1 obtain lat r2 where r2: "read_f64 bo r1 = Inr (lat, r2)"
    by (subst (asm) read_points.simps) (auto simp: Let_def split: sum.splits)
  let ?pts2 = "pts[i := \<lparr>Lng = lng, Lat = lat\<rparr>]"
  from Suc.prems(3) lt r1 r2 have rec: "read_points bo (Suc i) n r2 ?pts2 = (None, pts', r')"
    by (subst (asm) read_points.simps) (simp add: Let_def Point_update_both Suc.prems(1))
  have "length ?pts2 = n" using Suc.prems(1) by simp
  moreover have "Suc i + k = n" using Suc.prems(2) by simp
  ultimately obtain ps where ps: "stream_points bo k r2 = Some (ps, r')"
      "pts' = take (Suc i) ?pts2 @ ps"
    using Suc.IH rec by blast
  from r1 r2 have len: "16 \<le> length r" and lng: "lng = order_word bo (take 8 r)"
    and lat: "lat = order_word bo (take 8 (drop 8 r))" and r2eq: "r2 = drop 16 r"
    by (auto simp: read_f64_Inr)
  have "take (Suc i) ?pts2 = take i pts @ [\<lparr>Lng = lng, Lat = lat\<rparr>]"
    using lt Suc.prems(1) by (simp add: take_Suc_conv_app_nth)
  with ps len lng lat r2eq show ?case by simp
qed

lemma stream_points_length:
  "stream_points bo n r = Some (ps, r') \<Longrightarrow> length ps = n \<and> r' = drop (16 * n) r"
proof (induction n arbitrary: r ps)
  case 0
  then show ?case by simp
next
  case (Suc n)
  from Suc.prems obtain ps0 where ps0: "stream_points bo n (drop 16 r) = Some (ps0, r')"
    and ps: "ps = \<lparr>Lng = order_word bo (take 8 r), Lat = order_word bo (take 8 (drop 8 r))\<rparr> # ps0"
    by (auto split: if_splits option.splits)
  from Suc.IH [OF ps0] have "length ps0 = n" and "r' = drop (16 * n) (drop 16 r)"
    by simp_all
  with ps show ?case by (simp add: add.commute)
qed

lemma stream_points_nth:
  "stream_points bo n r = Some (ps, r') \<Longrightarrow> j < n \<Longrightarrow>
     ps ! j = \<lparr>Lng = order_word bo (take 8 (drop (16 * j) r)),
               Lat = order_word bo (take 8 (drop (16 * j + 8) r))\<rparr>"
proof (induction n arbitrary: r ps j)
  case 0
  then show ?case by simp
next
  case (Suc n)
  then show ?case
    by (cases j) (auto split: if_splits option.splits simp: add.commute add.left_commute)
qed

lemma read_rings_stream:
  "length rings = n \<Longrightarrow> i + k = n \<Longrightarrow> read_rings bo i n r rings = (None, rings', r')
   \<Longrightarrow> \<exists>rs. stream_rings bo k r = Some (rs, r') \<and> rings' = take i rings @ map (\<lambda>(c, ps). Slice ps) rs"
proof (induction k arbitrary: i r rings)
  case 0
  then show ?case by (simp add: read_rings.simps)
next
  case (Suc k)
  from Suc.prems have lt: "i < n" by simp
  from Suc.prems(3) lt obtain c r1 where c: "read_u32 bo r = Inr (c, r1)"
    by (subst (asm) read_rings.simps) (auto split: sum.splits)
  from Suc.prems(3) lt c obtain pts r2 where
    pts: "read_points bo 0 (unat c) r1 (replicate (unat c) zero_Point) = (None, pts, r2)"
    and rec: "read_rings bo (Suc i) n r2 (rings[i := Slice pts]) = (None, rings', r')"
    by (subst (asm) read_rings.simps) (auto split: sum.splits prod.splits option.splits)
  from read_points_stream [OF _ _ pts, of "unat c"]
  have sp: "stream_points bo (unat c) r1 = Some (pts, r2)" by simp
  have "length (rings[i := Slice pts]) = n" using Suc.prems(1) by simp
  moreover have "Suc i + k = n" using Suc.prems(2) by simp
  ultimately obtain rs where rs: "stream_rings bo k r2 = Some (rs, r')"
      "rings' = take (Suc i) (rings[i := Slice pts]) @ map (\<lambda>(c, ps). Slice ps) rs"
    using Suc.IH rec by blast
  have "take (Suc i) (rings[i := Slice pts]) = take i rings @ [Slice pts]"
    using lt Suc.prems(1) by (simp add: take_Suc_conv_app_nth)
  with rs sp c show ?case by (auto simp: read_u32_Inr)
qed

lemma stream_rings_length:
  "stream_rings bo n r = Some (rs, r') \<Longrightarrow>
     length rs = n \<and> (\<forall>(c, ps) \<in> set rs. length ps = unat c)"
proof (induction n arbitrary: r rs)
  case 0
  then show ?case by simp
next
  case (Suc n)
  let ?c = "order_word bo (take 4 r) :: 32 word"
  from Suc.prems obtain ps r1 rs0 where
    ps: "stream_points bo (unat ?c) (drop 4 r) = Some (ps, r1)"
    and rs0: "stream_rings bo n r1 = Some (rs0, r')"
    and rs: "rs = (?c, ps) # rs0"
    by (auto split: if_splits option.splits)
  from stream_points_length [OF ps] have "length ps = unat ?c" by simp
  with Suc.IH [OF rs0] rs show ?case by simp
qed

lemma read_geometries_stream:
  "i + k = n \<Longrightarrow> read_geometries i n r gs = (None, gs', r')
   \<Longrightarrow> \<exists>new. stream_geometries i k r = Some (new, r') \<and> gs' = gs @ new"
proof (induction k arbitrary: i r gs)
  case 0
  then show ?case by (simp add: read_geometries.simps)
next
  case (Suc k)
  from Suc.prems have lt: "i < n" by simp
  from Suc.prems(2) lt obtain g r1 where g: "read_geometry i r = Inr (g, r1)"
    and rec: "read_geometries (Suc i) n r1 (gs @ [g]) = (None, gs', r')"
    by (subst (asm) read_geometries.simps) (auto split: sum.splits)
  have "Suc i + k = n" using Suc.prems(1) by simp
  then obtain new where "stream_geometries (Suc i) k r1 = Some (new, r')" "gs' = (gs @ [g]) @ new"
    using Suc.IH rec by blast
  with g show ?case by simp
qed

lemma stream_geometries_length:
  "stream_geometries i k r = Some (gs, r') \<Longrightarrow> length gs = k"
  by (induction k arbitrary: i r gs) (auto split: sum.splits option.splits)

section \<open>Properties of the binary decoders\<close>

lemma wkb_open_marker:
  "hex_DecodeString s = Inr (m # rest) \<Longrightarrow>
     wkb_open s = (if m = 0 then Inr (BigEndian, rest)
                   else if m = 1 then Inr (LittleEndian, rest)
                   else Inl (InvalidByteOrder m None))"
  by (simp add: wkb_open_def read_u8_def byte_order_of_def)

lemma Scan_text:
  "val \<in> {VString s, VBytes s} \<Longrightarrow>
     Point_Scan val pt = Point_decode s pt
     \<and> LineString_Scan val ls = LineString_decode s ls
     \<and> Polygon_Scan val pg = Polygon_decode s pg
     \<and> GeometryCollection_Scan val gc = GeometryCollection_decode s gc"
  by (auto simp: Point_Scan_def LineString_Scan_def Polygon_Scan_def GeometryCollection_Scan_def)

lemma decode_open_error:
  "wkb_open s = Inl e \<Longrightarrow>
     Point_decode s pt = Return (Some e) pt
     \<and> LineString_decode s ls = Return (Some e) ls
     \<and> Polygon_decode s pg = Return (Some e) pg
     \<and> GeometryCollection_decode s gc = Return (Some e) gc"
  by (simp add: Point_decode_def LineString_decode_def Polygon_decode_def
        GeometryCollection_decode_def)

lemma read_geometry_marker:
  "read_geometry i (g # r1) =
     (if g = 0 then read_geometry_body BigEndian r1
      else if g = 1 then read_geometry_body LittleEndian r1
      else Inl (InvalidByteOrder g (Some i)))"
  by (simp add: read_geometry_def read_u8_def byte_order_of_def)

text \<open>A loop that ran \<open>k\<close> rounds without error runs on from there for a larger bound.\<close>

lemma read_geometries_extend:
  "i + d = k \<Longrightarrow> k \<le> n \<Longrightarrow> read_geometries i k r gs = (None, gs', r')
   \<Longrightarrow> read_geometries i n r gs = read_geometries k n r' gs'"
proof (induction d arbitrary: i r gs)
  case 0
  then show ?case by (simp add: read_geometries.simps [of k k])
next
  case (Suc d)
  from Suc.prems have lt: "i < k" "i < n" by simp_all
  from Suc.prems(3) lt obtain g r1 where g: "read_geometry i r = Inr (g, r1)"
    and rec: "read_geometries (Suc i) k r1 (gs @ [g]) = (None, gs', r')"
    by (subst (asm) read_geometries.simps) (auto split: sum.splits)
  have "Suc i + d = k" using Suc.prems(1) by simp
  from Suc.IH [OF this Suc.prems(2) rec]
  have "read_geometries (Suc i) n r1 (gs @ [g]) = read_geometries k n r' gs'" .
  with g lt show ?case by (subst read_geometries.simps) simp
qed

lemma read_geometries_fail:
  "k < n \<Longrightarrow> read_geometries 0 k r [] = (None, gs, r') \<Longrightarrow> read_geometry k r' = Inl e
   \<Longrightarrow> read_geometries 0 n r [] = (Some e, gs, r')"
proof -
  assume k: "k < n" and run: "read_geometries 0 k r [] = (None, gs, r')"
    and e: "read_geometry k r' = Inl e"
  from read_geometries_extend [OF _ _ run, of k n] k
  have "read_geometries 0 n r [] = read_geometries k n r' gs" by simp
  also from k e have "\<dots> = (Some e, gs, r')" by (subst read_geometries.simps) simp
  finally show ?thesis .
qed

lemma GeometryCollection_decode_loop:
  "wkb_open s = Inr (bo, r) \<Longrightarrow> read_u64 bo r = Inr (7, r1) \<Longrightarrow> read_u32 bo r1 = Inr (cnt, r2)
   \<Longrightarrow> read_geometries 0 (unat cnt) r2 [] = (err, gs, r3)
   \<Longrightarrow> GeometryCollection_decode s gc = Return err (gc\<lparr>Geometries := Slice gs\<rparr>)"
  by (simp add: GeometryCollection_decode_def)

text \<open>
  C8: for each of the four shapes, \<open>Scan\<close> of a nil input returns no error and leaves
  the receiver exactly as it was; a zero-valued receiver stays zero-valued, its slice
  field still nil.
\<close>

theorem Scan_nil_is_noop:
  "Point_Scan VNil pt = Return None pt
   \<and> LineString_Scan VNil ls = Return None ls
   \<and> Polygon_Scan VNil pg = Return None pg
   \<and> GeometryCollection_Scan VNil gc = Return None gc
   \<and> Point_Scan VNil zero_Point = Return None zero_Point
   \<and> LineString_Scan VNil \<lparr>Points = NilSlice\<rparr> = Return None \<lparr>Points = NilSlice\<rparr>
   \<and> Polygon_Scan VNil \<lparr>Rings = NilSlice\<rparr> = Return None \<lparr>Rings = NilSlice\<rparr>
   \<and> GeometryCollection_Scan VNil \<lparr>Geometries = NilSlice\<rparr>
        = Return None \<lparr>Geometries = NilSlice\<rparr>"
  by (simp add: Point_Scan_def LineString_Scan_def Polygon_Scan_def GeometryCollection_Scan_def)

text \<open>
  The switch on the marker: what \<open>wkb_open\<close> and the element reader make of the byte,
  what the four decoders and the element loop return for a byte that is neither 0 nor 1,
  and the two orders on four bytes.
\<close>

lemma marker_switch:
  "(hex_DecodeString s = Inr (m # rest) \<longrightarrow>
      wkb_open s = (if m = 0 then Inr (BigEndian, rest)
                    else if m = 1 then Inr (LittleEndian, rest)
                    else Inl (InvalidByteOrder m None)))
   \<and> (wkb_open s = Inl (InvalidByteOrder m None) \<and> val \<in> {VString s, VBytes s} \<longrightarrow>
        Point_Scan val pt = Return (Some (InvalidByteOrder m None)) pt
        \<and> LineString_Scan val ls = Return (Some (InvalidByteOrder m None)) ls
        \<and> Polygon_Scan val pg = Return (Some (InvalidByteOrder m None)) pg
        \<and> GeometryCollection_Scan val gc = Return (Some (InvalidByteOrder m None)) gc)
   \<and> read_geometry i (g # r1) =
        (if g = 0 then read_geometry_body BigEndian r1
         else if g = 1 then read_geometry_body LittleEndian r1
         else Inl (InvalidByteOrder g (Some i)))
   \<and> (wkb_open s = Inr (bo, r) \<and> read_u64 bo r = Inr (7, r2) \<and> read_u32 bo r2 = Inr (cnt, r3)
        \<and> k < unat cnt \<and> read_geometries 0 k r3 [] = (None, gs, g # r1)
        \<and> g \<noteq> 0 \<and> g \<noteq> 1 \<and> val \<in> {VString s, VBytes s} \<longrightarrow>
        GeometryCollection_Scan val gc
          = Return (Some (InvalidByteOrder g (Some k))) (gc\<lparr>Geometries := Slice gs\<rparr>))
   \<and> (order_word BigEndian [a, b, c, d] :: 32 word)
        = push_bit 24 (ucast a) OR push_bit 16 (ucast b) OR push_bit 8 (ucast c) OR ucast d
   \<and> (order_word LittleEndian [a, b, c, d] :: 32 word)
        = ucast a OR push_bit 8 (ucast b) OR push_bit 16 (ucast c) OR push_bit 24 (ucast d)"
proof (intro conjI impI)
  assume "hex_DecodeString s = Inr (m # rest)"
  then show "wkb_open s = (if m = 0 then Inr (BigEndian, rest)
                    else if m = 1 then Inr (LittleEndian, rest)
                    else Inl (InvalidByteOrder m None))"
    by (rule wkb_open_marker)
next
  assume a: "wkb_open s = Inl (InvalidByteOrder m None) \<and> val \<in> {VString s, VBytes s}"
  then have v: "val \<in> {VString s, VBytes s}" and e: "wkb_open s = Inl (InvalidByteOrder m None)"
    by simp_all
  show "Point_Scan val pt = Return (Some (InvalidByteOrder m None)) pt"
    using Scan_text [OF v, of pt] decode_open_error [OF e, of pt] by simp
  show "LineString_Scan val ls = Return (Some (InvalidByteOrder m None)) ls"
    using Scan_text [OF v, of _ ls] decode_open_error [OF e, of _ ls] by simp
  show "Polygon_Scan val pg = Return (Some (InvalidByteOrder m None)) pg"
    using Scan_text [OF v, of _ _ pg] decode_open_error [OF e, of _ _ pg] by simp
  show "GeometryCollection_Scan val gc = Return (Some (InvalidByteOrder m None)) gc"
    using Scan_text [OF v, of _ _ _ gc] decode_open_error [OF e, of _ _ _ gc] by simp
next
  show "read_geometry i (g # r1) =
        (if g = 0 then read_geometry_body BigEndian r1
         else if g = 1 then read_geometry_body LittleEndian r1
         else Inl (InvalidByteOrder g (Some i)))"
    by (rule read_geometry_marker)
next
  assume a: "wkb_open s = Inr (bo, r) \<and> read_u64 bo r = Inr (7, r2) \<and> read_u32 bo r2 = Inr (cnt, r3)
        \<and> k < unat cnt \<and> read_geometries 0 k r3 [] = (None, gs, g # r1)
        \<and> g \<noteq> 0 \<and> g \<noteq> 1 \<and> val \<in> {VString s, VBytes s}"
  then have v: "val \<in> {VString s, VBytes s}" and h1: "wkb_open s = Inr (bo, r)"
    and h2: "read_u64 bo r = Inr (7, r2)" and h3: "read_u32 bo r2 = Inr (cnt, r3)"
    and k: "k < unat cnt" and run: "read_geometries 0 k r3 [] = (None, gs, g # r1)"
    and g: "g \<noteq> 0" "g \<noteq> 1"
    by simp_all
  from g have "read_geometry k (g # r1) = Inl (InvalidByteOrder g (Some k))"
    by (simp add: read_geometry_marker)
  from read_geometries_fail [OF k run this]
  have "read_geometries 0 (unat cnt) r3 [] = (Some (InvalidByteOrder g (Some k)), gs, g # r1)" .
  from GeometryCollection_decode_loop [OF h1 h2 h3 this]
  have "GeometryCollection_decode s gc
      = Return (Some (InvalidByteOrder g (Some k))) (gc\<lparr>Geometries := Slice gs\<rparr>)" .
  with Scan_text [OF v, of _ _ _ gc]
  show "GeometryCollection_Scan val gc
          = Return (Some (InvalidByteOrder g (Some k))) (gc\<lparr>Geometries := Slice gs\<rparr>)"
    by simp
next
  show "(order_word BigEndian [a, b, c, d] :: 32 word)
        = push_bit 24 (ucast a) OR push_bit 16 (ucast b) OR push_bit 8 (ucast c) OR ucast d"
    by (rule order_word_32)
next
  show "(order_word LittleEndian [a, b, c, d] :: 32 word)
        = ucast a OR push_bit 8 (ucast b) OR push_bit 16 (ucast c) OR push_bit 24 (ucast d)"
    by (rule order_word_32)
qed


text \<open>With 24 bytes after a valid marker, \<open>Point.Scan\<close> succeeds whatever the type says.\<close>

lemma Point_decode_any_tag:
  "wkb_open s = Inr (bo, r) \<Longrightarrow> 24 \<le> length r \<Longrightarrow>
     Point_decode s p = Return None \<lparr>Lng = order_word bo (take 8 (drop 8 r)),
                                     Lat = order_word bo (take 8 (drop 16 r))\<rparr>"
proof -
  assume o: "wkb_open s = Inr (bo, r)" and len: "24 \<le> length r"
  from len have ty: "read_u64 bo r = Inr (order_word bo (take 8 r), drop 8 r)"
    by (simp add: read_u64_Inr)
  from len have xy: "read_full 16 (drop 8 r) = Inr (take 16 (drop 8 r), drop 16 (drop 8 r))"
    by (simp add: read_full_def)
  have "take 8 (take 16 (drop 8 r)) = take 8 (drop 8 r)"
    by simp
  moreover have "drop 8 (take 16 (drop 8 r)) = take 8 (drop 16 r)"
    by (simp add: drop_take)
  ultimately show ?thesis
    using o ty xy by (simp add: Point_decode_def Point_update_both)
qed

text \<open>
  C1: the specification has \<open>Point.Scan\<close> answer a type tag other than 1 with a
  \<open>TypeMismatch\<close> error and read no coordinates under it. The code reads the tag and
  never compares it: on a little-endian stream tagged 3 (Polygon) it returns no error
  and stores the next 16 bytes, the floats 3 and 1, as the point's coordinates.
\<close>

theorem Point_Scan_ignores_type_tag:
  "Point_Scan (VString ''0103000000000000000000000000000840000000000000f03f'') zero_Point
     = Return None \<lparr>Lng = 0x4008000000000000, Lat = 0x3FF0000000000000\<rparr>"
  by code_simp

text \<open>
  The three sibling decoders answer an input that is neither nil, a string nor a byte
  array with an error naming its type, and leave the receiver as it was.
\<close>

lemma Scan_unsupported_input_siblings:
  "LineString_Scan (VOther t) ls = Return (Some (UnsupportedInputKind t ''LineString'')) ls
   \<and> Polygon_Scan (VOther t) pg = Return (Some (UnsupportedInputKind t ''Polygon'')) pg
   \<and> GeometryCollection_Scan (VOther t) gc
        = Return (Some (UnsupportedInputKind t ''GeometryCollection'')) gc"
  by (simp add: LineString_Scan_def Polygon_Scan_def GeometryCollection_Scan_def)

text \<open>
  C2: the specification has every \<open>Scan\<close> answer an input that is neither nil, a
  string nor a byte array with an error naming the input's type, without panicking.
  \<open>Point.Scan\<close> does not: its unchecked assertion \<open>val.(string)\<close> panics on such
  an input, here an \<open>int\<close>, where \<open>Polygon.Scan\<close> returns the error.
\<close>

theorem Point_Scan_panics_on_unsupported_input:
  "Point_Scan (VOther ''int'') zero_Point = Panic ''int''
   \<and> Polygon_Scan (VOther ''int'') \<lparr>Rings = NilSlice\<rparr>
        = Return (Some (UnsupportedInputKind ''int'' ''Polygon'')) \<lparr>Rings = NilSlice\<rparr>"
  by (simp add: Point_Scan_def Polygon_Scan_def)

lemma LineString_decode_tag:
  "wkb_open s = Inr (bo, r) \<Longrightarrow> read_u32 bo r = Inr (t, r1) \<Longrightarrow>
     LineString_decode s ls =
       (if t AND 0x1FFFFFFF \<noteq> 2 then Return (Some (TypeMismatch ''LineString'' (unat t))) ls
        else if t AND 0x20000000 \<noteq> 0
        then (case read_u32 bo r1 of
                Inl e \<Rightarrow> Return (Some e) ls
              | Inr (srid, r2) \<Rightarrow> LineString_body bo r2 ls)
        else LineString_body bo r1 ls)"
  by (simp add: LineString_decode_def)

text \<open>
  C4: \<open>LineString.Scan\<close> reads a 4-byte type. When the type without its three flag
  bits is not 2, it fails with \<open>TypeMismatch\<close>, whether or not the SRID flag
  \<open>0x20000000\<close> is set. When it is 2 and the flag is set, the next 4 bytes are skipped,
  whatever they hold, and the count and the points are read after them; when the flag
  is not set, the count follows the type at once.
\<close>

theorem LineString_tag_and_srid:
  "wkb_open s = Inr (bo, r) \<Longrightarrow> read_u32 bo r = Inr (t, r1) \<Longrightarrow> val \<in> {VString s, VBytes s} \<Longrightarrow>
     t = order_word bo (take 4 r) \<and> r1 = drop 4 r
     \<and> (t AND 0x1FFFFFFF \<noteq> 2 \<longrightarrow>
          LineString_Scan val ls = Return (Some (TypeMismatch ''LineString'' (unat t))) ls)
     \<and> (t AND 0x1FFFFFFF = 2 \<and> t AND 0x20000000 \<noteq> 0 \<and> 4 \<le> length r1 \<longrightarrow>
          LineString_Scan val ls = LineString_body bo (drop 4 r1) ls)
     \<and> (t AND 0x1FFFFFFF = 2 \<and> t AND 0x20000000 = 0 \<longrightarrow>
          LineString_Scan val ls = LineString_body bo r1 ls)"
proof -
  assume o: "wkb_open s = Inr (bo, r)" and t: "read_u32 bo r = Inr (t, r1)"
    and v: "val \<in> {VString s, VBytes s}"
  from v have scan: "LineString_Scan val ls = LineString_decode s ls"
    by (auto simp: LineString_Scan_def)
  note dec = LineString_decode_tag [OF o t, of ls]
  from t have pos: "t = order_word bo (take 4 r) \<and> r1 = drop 4 r"
    by (simp add: read_u32_Inr)
  have skip: "4 \<le> length r1 \<Longrightarrow> read_u32 bo r1 = Inr (order_word bo (take 4 r1), drop 4 r1)"
    by (simp add: read_u32_Inr)
  from scan dec pos skip show ?thesis
    by (simp split: if_splits)
qed


theorem LineString_tag_and_srid_witness:
  "LineString_Scan (VString wkb_linestring_srid) \<lparr>Points = NilSlice\<rparr>
     = Return None \<lparr>Points = Slice [\<lparr>Lng = 0x4008000000000000, Lat = 0x3FF0000000000000\<rparr>,
                                 \<lparr>Lng = 0x3FF0000000000000, Lat = 0x4000000000000000\<rparr>]\<rparr>
   \<and> LineString_Scan (VString wkb_linestring_srid_other) \<lparr>Points = NilSlice\<rparr>
     = Return None \<lparr>Points = Slice [\<lparr>Lng = 0x4008000000000000, Lat = 0x3FF0000000000000\<rparr>,
                                 \<lparr>Lng = 0x3FF0000000000000, Lat = 0x4000000000000000\<rparr>]\<rparr>
   \<and> LineString_Scan (VBytes wkb_linestring_plain) \<lparr>Points = NilSlice\<rparr>
     = Return None \<lparr>Points = Slice [\<lparr>Lng = 0x4008000000000000, Lat = 0x3FF0000000000000\<rparr>,
                                 \<lparr>Lng = 0x3FF0000000000000, Lat = 0x4000000000000000\<rparr>]\<rparr>
   \<and> LineString_Scan (VString wkb_point_srid) \<lparr>Points = NilSlice\<rparr>
     = Return (Some (TypeMismatch ''LineString'' 0x20000001)) \<lparr>Points = NilSlice\<rparr>"
proof -
  let ?ls = "\<lparr>Points = NilSlice\<rparr>"
  let ?r1 = "after_marker wkb_linestring_srid"
  let ?r2 = "after_marker wkb_linestring_srid_other"
  let ?r3 = "after_marker wkb_linestring_plain"
  let ?r4 = "after_marker wkb_point_srid"
  let ?body = "drop 4 ?r3"
  have o1: "wkb_open wkb_linestring_srid = Inr (LittleEndian, ?r1)"
    and o2: "wkb_open wkb_linestring_srid_other = Inr (LittleEndian, ?r2)"
    and o3: "wkb_open wkb_linestring_plain = Inr (LittleEndian, ?r3)"
    and o4: "wkb_open wkb_point_srid = Inr (LittleEndian, ?r4)"
    by code_simp+
  have t1: "read_u32 LittleEndian ?r1 = Inr (0x20000002, [0xe6, 0x10, 0, 0] @ ?body)"
    and t2: "read_u32 LittleEndian ?r2 = Inr (0x20000002, [0xff, 0xff, 0xff, 0xff] @ ?body)"
    and t3: "read_u32 LittleEndian ?r3 = Inr (2, ?body)"
    and t4: "read_u32 LittleEndian ?r4 = Inr (0x20000001, [0xe6, 0x10, 0, 0])"
    by code_simp+
  have body: "LineString_body LittleEndian ?body ?ls
      = Return None \<lparr>Points = Slice [\<lparr>Lng = 0x4008000000000000, Lat = 0x3FF0000000000000\<rparr>,
                                 \<lparr>Lng = 0x3FF0000000000000, Lat = 0x4000000000000000\<rparr>]\<rparr>"
    by code_simp
  have "LineString_Scan (VString wkb_linestring_srid) ?ls
      = LineString_body LittleEndian ?body ?ls"
    using LineString_tag_and_srid [OF o1 t1, of "VString wkb_linestring_srid" ?ls] by simp
  moreover have "LineString_Scan (VString wkb_linestring_srid_other) ?ls
      = LineString_body LittleEndian ?body ?ls"
    using LineString_tag_and_srid [OF o2 t2, of "VString wkb_linestring_srid_other" ?ls] by simp
  moreover have "LineString_Scan (VBytes wkb_linestring_plain) ?ls
      = LineString_body LittleEndian ?body ?ls"
    using LineString_tag_and_srid [OF o3 t3, of "VBytes wkb_linestring_plain" ?ls] by simp
  moreover have "LineString_Scan (VString wkb_point_srid) ?ls
      = Return (Some (TypeMismatch ''LineString'' 0x20000001)) ?ls"
    using LineString_tag_and_srid [OF o4 t4, of "VString wkb_point_srid" ?ls] by simp
  ultimately show ?thesis using body by simp
qed

text \<open>What a loop that ends without error has read, in terms of the stream.\<close>

lemma read_points_success:
  "read_points bo 0 n r (replicate n zero_Point) = (None, pts, r')
   \<Longrightarrow> stream_points bo n r = Some (pts, r')"
  using read_points_stream [of "replicate n zero_Point" n 0 n bo r pts r'] by simp

lemma read_rings_success:
  "read_rings bo 0 n r (replicate n NilSlice) = (None, rings, r')
   \<Longrightarrow> \<exists>rs. stream_rings bo n r = Some (rs, r') \<and> rings = map (\<lambda>(c, ps). Slice ps) rs"
  using read_rings_stream [of "replicate n NilSlice" n 0 n bo r rings r'] by simp

lemma read_geometry_body_unsupported:
  "read_u64 go r1 = Inr (t, r2) \<Longrightarrow> t \<noteq> 1 \<Longrightarrow> t \<noteq> 2 \<Longrightarrow> t \<noteq> 3
   \<Longrightarrow> read_geometry_body go r1 = Inl (UnsupportedElementType (unat t))"
  by (simp add: read_geometry_body_def)

lemma read_geometry_body_Point:
  assumes "read_u64 go r1 = Inr (1, r2)" and "read_geometry_body go r1 = Inr (g, r')"
  shows "g = GPoint \<lparr>Lng = order_word go (take 8 r2), Lat = order_word go (take 8 (drop 8 r2))\<rparr>
         \<and> r' = drop 16 r2"
proof -
  from assms obtain lng r3 lat where "read_f64 go r2 = Inr (lng, r3)"
      and "read_f64 go r3 = Inr (lat, r')" and "g = GPoint \<lparr>Lng = lng, Lat = lat\<rparr>"
    by (auto simp: read_geometry_body_def split: sum.splits)
  then show ?thesis
    by (auto simp: read_f64_Inr)
qed

lemma read_geometry_body_LineString:
  assumes "read_u64 go r1 = Inr (2, r2)" and "read_geometry_body go r1 = Inr (g, r')"
  shows "\<exists>ps. stream_points go (unat (order_word go (take 4 r2) :: 32 word)) (drop 4 r2)
                 = Some (ps, r')
              \<and> g = GLineString \<lparr>Points = Slice ps\<rparr>"
proof -
  from assms obtain c r3 pts where c: "read_u32 go r2 = Inr (c, r3)"
      and run: "read_points go 0 (unat c) r3 (replicate (unat c) zero_Point) = (None, pts, r')"
      and g: "g = GLineString \<lparr>Points = Slice pts\<rparr>"
    by (auto simp: read_geometry_body_def split: sum.splits prod.splits option.splits)
  from read_points_success [OF run] c g show ?thesis
    by (auto simp: read_u32_Inr)
qed

lemma read_geometry_body_Polygon:
  assumes "read_u64 go r1 = Inr (3, r2)" and "read_geometry_body go r1 = Inr (g, r')"
  shows "\<exists>rs. stream_rings go (unat (order_word go (take 4 r2) :: 32 word)) (drop 4 r2)
                 = Some (rs, r')
              \<and> g = GPolygon \<lparr>Rings = Slice (map (\<lambda>(c, ps). Slice ps) rs)\<rparr>"
proof -
  from assms obtain c r3 rings where c: "read_u32 go r2 = Inr (c, r3)"
      and run: "read_rings go 0 (unat c) r3 (replicate (unat c) NilSlice) = (None, rings, r')"
      and g: "g = GPolygon \<lparr>Rings = Slice rings\<rparr>"
    by (auto simp: read_geometry_body_def split: sum.splits prod.splits option.splits)
  from read_rings_success [OF run] c g show ?thesis
    by (auto simp: read_u32_Inr)
qed

lemma GeometryCollection_decode_success:
  assumes o: "wkb_open s = Inr (bo, r)"
    and d: "GeometryCollection_decode s gc = Return None gc'"
  shows "read_u64 bo r = Inr (7, drop 8 r) \<and> 12 \<le> length r
         \<and> (\<exists>gs r'. stream_geometries 0 (unat (order_word bo (take 4 (drop 8 r)) :: 32 word))
                        (drop 12 r) = Some (gs, r')
                    \<and> gc' = gc\<lparr>Geometries := Slice gs\<rparr>)"
proof -
  from o d obtain t r1 where t: "read_u64 bo r = Inr (t, r1)"
    by (auto simp: GeometryCollection_decode_def split: sum.splits)
  with o d have t7: "t = 7"
    by (auto simp: GeometryCollection_decode_def split: if_splits)
  from o d t t7 obtain cnt r2 where c: "read_u32 bo r1 = Inr (cnt, r2)"
    by (auto simp: GeometryCollection_decode_def split: sum.splits)
  from o d t t7 c obtain gs r3 where run: "read_geometries 0 (unat cnt) r2 [] = (None, gs, r3)"
      and gc': "gc' = gc\<lparr>Geometries := Slice gs\<rparr>"
    by (auto simp: GeometryCollection_decode_def split: prod.splits)
  from read_geometries_stream [OF _ run, of "unat cnt"]
  have st: "stream_geometries 0 (unat cnt) r2 = Some (gs, r3)" by simp
  from t t7 have r1: "r1 = drop 8 r" and l8: "8 \<le> length r"
    by (simp_all add: read_u64_Inr)
  from c r1 have cnt: "cnt = order_word bo (take 4 (drop 8 r))" and r2: "r2 = drop 12 r"
      and l4: "4 \<le> length (drop 8 r)"
    by (simp_all add: read_u32_Inr)
  from t t7 r1 st cnt r2 gc' l4 show ?thesis by auto
qed

text \<open>
  C5: in a collection, an element whose 8-byte type is not 1, 2 or 3 (7 included) makes
  the element reader fail with \<open>UnsupportedElementType\<close>, and when the elements
  before it decoded, the whole decode fails with that error. An element of type 1, 2 or
  3 that decodes is the Point, LineString or Polygon read from the bytes after its
  type, and the elements of a decode without error are those of the stream, in stream
  order.
\<close>

theorem collection_element_dispatch:
  "(read_u64 go r1 = Inr (t, r2) \<longrightarrow>
      (t \<noteq> 1 \<and> t \<noteq> 2 \<and> t \<noteq> 3 \<longrightarrow>
         read_geometry_body go r1 = Inl (UnsupportedElementType (unat t)))
    \<and> (read_geometry_body go r1 = Inr (g, r') \<longrightarrow>
         (t = 1 \<longrightarrow> g = GPoint \<lparr>Lng = order_word go (take 8 r2),
                                 Lat = order_word go (take 8 (drop 8 r2))\<rparr>
                      \<and> r' = drop 16 r2)
       \<and> (t = 2 \<longrightarrow> (\<exists>ps. stream_points go (unat (order_word go (take 4 r2) :: 32 word))
                               (drop 4 r2) = Some (ps, r')
                            \<and> g = GLineString \<lparr>Points = Slice ps\<rparr>))
       \<and> (t = 3 \<longrightarrow> (\<exists>rs. stream_rings go (unat (order_word go (take 4 r2) :: 32 word))
                               (drop 4 r2) = Some (rs, r')
                            \<and> g = GPolygon \<lparr>Rings = Slice (map (\<lambda>(c, ps). Slice ps) rs)\<rparr>))))
   \<and> (wkb_open s = Inr (bo, r) \<and> read_u64 bo r = Inr (7, rc) \<and> read_u32 bo rc = Inr (cnt, re)
        \<and> k < unat cnt \<and> read_geometries 0 k re [] = (None, gs, m # r1)
        \<and> byte_order_of m = Some go \<and> read_u64 go r1 = Inr (t, r2)
        \<and> t \<noteq> 1 \<and> t \<noteq> 2 \<and> t \<noteq> 3 \<and> val \<in> {VString s, VBytes s} \<longrightarrow>
        GeometryCollection_Scan val gc
          = Return (Some (UnsupportedElementType (unat t))) (gc\<lparr>Geometries := Slice gs\<rparr>))
   \<and> (wkb_open s = Inr (bo, r) \<and> val \<in> {VString s, VBytes s}
        \<and> GeometryCollection_Scan val gc = Return None gc' \<longrightarrow>
        (\<exists>gs r'. stream_geometries 0 (unat (order_word bo (take 4 (drop 8 r)) :: 32 word))
                     (drop 12 r) = Some (gs, r')
                 \<and> Geometries gc' = Slice gs))"
proof (intro conjI impI)
  assume t: "read_u64 go r1 = Inr (t, r2)" and "t \<noteq> 1 \<and> t \<noteq> 2 \<and> t \<noteq> 3"
  then show "read_geometry_body go r1 = Inl (UnsupportedElementType (unat t))"
    by (simp add: read_geometry_body_unsupported)
next
  assume "read_u64 go r1 = Inr (t, r2)" and "read_geometry_body go r1 = Inr (g, r')" and "t = 1"
  then show "g = GPoint \<lparr>Lng = order_word go (take 8 r2),
                          Lat = order_word go (take 8 (drop 8 r2))\<rparr>"
    and "r' = drop 16 r2"
    using read_geometry_body_Point [of go r1 r2 g r'] by simp_all
next
  assume "read_u64 go r1 = Inr (t, r2)" and "read_geometry_body go r1 = Inr (g, r')" and "t = 2"
  then show "\<exists>ps. stream_points go (unat (order_word go (take 4 r2) :: 32 word))
                               (drop 4 r2) = Some (ps, r')
                            \<and> g = GLineString \<lparr>Points = Slice ps\<rparr>"
    using read_geometry_body_LineString [of go r1 r2 g r'] by simp
next
  assume "read_u64 go r1 = Inr (t, r2)" and "read_geometry_body go r1 = Inr (g, r')" and "t = 3"
  then show "\<exists>rs. stream_rings go (unat (order_word go (take 4 r2) :: 32 word))
                               (drop 4 r2) = Some (rs, r')
                            \<and> g = GPolygon \<lparr>Rings = Slice (map (\<lambda>(c, ps). Slice ps) rs)\<rparr>"
    using read_geometry_body_Polygon [of go r1 r2 g r'] by simp
next
  assume a: "wkb_open s = Inr (bo, r) \<and> read_u64 bo r = Inr (7, rc) \<and> read_u32 bo rc = Inr (cnt, re)
        \<and> k < unat cnt \<and> read_geometries 0 k re [] = (None, gs, m # r1)
        \<and> byte_order_of m = Some go \<and> read_u64 go r1 = Inr (t, r2)
        \<and> t \<noteq> 1 \<and> t \<noteq> 2 \<and> t \<noteq> 3 \<and> val \<in> {VString s, VBytes s}"
  then have v: "val \<in> {VString s, VBytes s}" and h1: "wkb_open s = Inr (bo, r)"
    and h2: "read_u64 bo r = Inr (7, rc)" and h3: "read_u32 bo rc = Inr (cnt, re)"
    and k: "k < unat cnt" and run: "read_geometries 0 k re [] = (None, gs, m # r1)"
    and m: "byte_order_of m = Some go" and t: "read_u64 go r1 = Inr (t, r2)"
    and t123: "t \<noteq> 1" "t \<noteq> 2" "t \<noteq> 3"
    by simp_all
  from m have "read_geometry k (m # r1) = read_geometry_body go r1"
    by (simp add: read_geometry_def read_u8_def)
  with read_geometry_body_unsupported [OF t t123]
  have "read_geometry k (m # r1) = Inl (UnsupportedElementType (unat t))" by simp
  from read_geometries_fail [OF k run this]
  have "read_geometries 0 (unat cnt) re [] = (Some (UnsupportedElementType (unat t)), gs, m # r1)" .
  from GeometryCollection_decode_loop [OF h1 h2 h3 this]
  have "GeometryCollection_decode s gc
      = Return (Some (UnsupportedElementType (unat t))) (gc\<lparr>Geometries := Slice gs\<rparr>)" .
  with Scan_text [OF v, of _ _ _ gc]
  show "GeometryCollection_Scan val gc
          = Return (Some (UnsupportedElementType (unat t))) (gc\<lparr>Geometries := Slice gs\<rparr>)"
    by simp
next
  assume a: "wkb_open s = Inr (bo, r) \<and> val \<in> {VString s, VBytes s}
        \<and> GeometryCollection_Scan val gc = Return None gc'"
  then have v: "val \<in> {VString s, VBytes s}" and o: "wkb_open s = Inr (bo, r)"
    and sc: "GeometryCollection_Scan val gc = Return None gc'"
    by simp_all
  from sc Scan_text [OF v, of _ _ _ gc]
  have "GeometryCollection_decode s gc = Return None gc'" by simp
  from GeometryCollection_decode_success [OF o this]
  show "\<exists>gs r'. stream_geometries 0 (unat (order_word bo (take 4 (drop 8 r)) :: 32 word))
                     (drop 12 r) = Some (gs, r')
                 \<and> Geometries gc' = Slice gs"
    by auto
qed

theorem collection_element_dispatch_witness:
  "read_geometry_body LittleEndian [7,0,0,0,0,0,0,0, 0,0,0,0] = Inl (UnsupportedElementType 7)
   \<and> GeometryCollection_Scan (VString wkb_collection_nested) \<lparr>Geometries = NilSlice\<rparr>
       = Return (Some (UnsupportedElementType 7))
           \<lparr>Geometries = Slice [GPoint \<lparr>Lng = 0x4000000000000000, Lat = 0\<rparr>]\<rparr>
   \<and> GeometryCollection_Scan (VString wkb_collection) \<lparr>Geometries = NilSlice\<rparr>
       = Return None \<lparr>Geometries = Slice
             [GPoint \<lparr>Lng = 0x4000000000000000, Lat = 0\<rparr>,
              GLineString \<lparr>Points = Slice [\<lparr>Lng = 0, Lat = 0\<rparr>,
                \<lparr>Lng = 0x3FF0000000000000, Lat = 0x3FF0000000000000\<rparr>]\<rparr>,
              GPolygon \<lparr>Rings = Slice [Slice [\<lparr>Lng = 0x4008000000000000, Lat = 0x3FF0000000000000\<rparr>],
                Slice []]\<rparr>]\<rparr>
   \<and> (\<exists>r'. stream_geometries 0 3 (drop 12 (after_marker wkb_collection))
         = Some ([GPoint \<lparr>Lng = 0x4000000000000000, Lat = 0\<rparr>,
              GLineString \<lparr>Points = Slice [\<lparr>Lng = 0, Lat = 0\<rparr>,
                \<lparr>Lng = 0x3FF0000000000000, Lat = 0x3FF0000000000000\<rparr>]\<rparr>,
              GPolygon \<lparr>Rings = Slice [Slice [\<lparr>Lng = 0x4008000000000000, Lat = 0x3FF0000000000000\<rparr>],
                Slice []]\<rparr>], r'))"
proof -
  let ?rbad = "after_marker wkb_collection_nested"
  let ?rok = "after_marker wkb_collection"
  let ?elem = "[7,0,0,0,0,0,0,0, 0,0,0,0] :: byte list"
  let ?gs = "[GPoint \<lparr>Lng = 0x4000000000000000, Lat = 0\<rparr>,
              GLineString \<lparr>Points = Slice [\<lparr>Lng = 0, Lat = 0\<rparr>,
                \<lparr>Lng = 0x3FF0000000000000, Lat = 0x3FF0000000000000\<rparr>]\<rparr>,
              GPolygon \<lparr>Rings = Slice [Slice [\<lparr>Lng = 0x4008000000000000, Lat = 0x3FF0000000000000\<rparr>],
                Slice []]\<rparr>]"
  let ?nil = "\<lparr>Geometries = NilSlice\<rparr>"
  have t7: "read_u64 LittleEndian ?elem = Inr (7, [0,0,0,0])"
    by code_simp
  have e7: "read_geometry_body LittleEndian ?elem = Inl (UnsupportedElementType 7)"
    using collection_element_dispatch
      [where go = LittleEndian and ?r1.0 = ?elem and t = 7 and ?r2.0 = "[0,0,0,0]",
       THEN conjunct1] t7
    by simp
  have obad: "wkb_open wkb_collection_nested = Inr (LittleEndian, ?rbad)"
    and tbad: "read_u64 LittleEndian ?rbad = Inr (7, drop 8 ?rbad)"
    and cbad: "read_u32 LittleEndian (drop 8 ?rbad) = Inr (2, drop 12 ?rbad)"
    and run: "read_geometries 0 1 (drop 12 ?rbad) []
      = (None, [GPoint \<lparr>Lng = 0x4000000000000000, Lat = 0\<rparr>], 1 # ?elem)"
    and le: "byte_order_of 1 = Some LittleEndian"
    by code_simp+
  have one: "(1::nat) < unat (2 :: 32 word)"
    by simp
  have bad: "GeometryCollection_Scan (VString wkb_collection_nested) ?nil
       = Return (Some (UnsupportedElementType 7))
           \<lparr>Geometries = Slice [GPoint \<lparr>Lng = 0x4000000000000000, Lat = 0\<rparr>]\<rparr>"
    using collection_element_dispatch
      [where s = wkb_collection_nested and bo = LittleEndian and r = ?rbad
         and rc = "drop 8 ?rbad" and cnt = 2 and re = "drop 12 ?rbad" and k = 1
         and gs = "[GPoint \<lparr>Lng = 0x4000000000000000, Lat = 0\<rparr>]" and m = 1
         and ?r1.0 = ?elem and go = LittleEndian and t = 7 and ?r2.0 = "[0,0,0,0]"
         and val = "VString wkb_collection_nested" and gc = ?nil,
       THEN conjunct2, THEN conjunct1]
      obad tbad cbad run le t7 one
    by simp
  have ook: "wkb_open wkb_collection = Inr (LittleEndian, ?rok)"
    and ok: "GeometryCollection_Scan (VString wkb_collection) ?nil
      = Return None \<lparr>Geometries = Slice ?gs\<rparr>"
    and cnt: "unat (order_word LittleEndian (take 4 (drop 8 ?rok)) :: 32 word) = 3"
    by code_simp+
  from collection_element_dispatch
      [where s = wkb_collection and bo = LittleEndian and r = ?rok
         and val = "VString wkb_collection" and gc = ?nil
         and gc' = "\<lparr>Geometries = Slice ?gs\<rparr>",
       THEN conjunct2, THEN conjunct2] ook ok
  obtain gs r' where
    "stream_geometries 0 (unat (order_word LittleEndian (take 4 (drop 8 ?rok)) :: 32 word))
        (drop 12 ?rok) = Some (gs, r')" and "?gs = gs"
    by auto
  with cnt have "\<exists>r'. stream_geometries 0 3 (drop 12 ?rok) = Some (?gs, r')"
    by auto
  with e7 bad ok show ?thesis by simp
qed

lemma LineString_body_success:
  assumes "LineString_body bo r ls = Return None ls'"
  shows "4 \<le> length r
         \<and> (\<exists>ps r'. stream_points bo (unat (order_word bo (take 4 r) :: 32 word)) (drop 4 r)
                        = Some (ps, r')
                    \<and> ls' = ls\<lparr>Points := Slice ps\<rparr>)"
proof -
  from assms obtain c r1 where c: "read_u32 bo r = Inr (c, r1)"
    by (auto simp: LineString_body_def split: sum.splits)
  with assms obtain pts r2 where
    run: "read_points bo 0 (unat c) r1 (replicate (unat c) zero_Point) = (None, pts, r2)"
    and ls': "ls' = ls\<lparr>Points := Slice pts\<rparr>"
    by (auto simp: LineString_body_def split: prod.splits)
  from read_points_success [OF run] c ls' show ?thesis
    by (auto simp: read_u32_Inr)
qed

lemma LineString_decode_success:
  assumes o: "wkb_open s = Inr (bo, r)" and d: "LineString_decode s ls = Return None ls'"
  shows "let off = (if (order_word bo (take 4 r) :: 32 word) AND 0x20000000 \<noteq> 0 then 8 else 4)
         in \<exists>ps r'. stream_points bo (unat (order_word bo (take 4 (drop off r)) :: 32 word))
                        (drop (off + 4) r) = Some (ps, r')
                    \<and> ls' = ls\<lparr>Points := Slice ps\<rparr>"
proof -
  from o d obtain t r1 where t: "read_u32 bo r = Inr (t, r1)"
    by (auto simp: LineString_decode_def split: sum.splits)
  then have teq: "t = order_word bo (take 4 r)" and r1: "r1 = drop 4 r"
    by (simp_all add: read_u32_Inr)
  note dec = LineString_decode_tag [OF o t, of ls]
  show ?thesis
  proof (cases "t AND 0x20000000 \<noteq> 0")
    case True
    with dec d obtain srid r2 where s: "read_u32 bo r1 = Inr (srid, r2)"
      and b: "LineString_body bo r2 ls = Return None ls'"
      by (auto split: if_splits sum.splits)
    from s r1 have r2: "r2 = drop 8 r" by (simp add: read_u32_Inr)
    from LineString_body_success [OF b] r2 True teq show ?thesis
      by (simp add: Let_def)
  next
    case False
    with dec d have b: "LineString_body bo r1 ls = Return None ls'"
      by (auto split: if_splits)
    from LineString_body_success [OF b] r1 False teq show ?thesis
      by (simp add: Let_def)
  qed
qed

lemma Polygon_decode_success:
  assumes o: "wkb_open s = Inr (bo, r)" and d: "Polygon_decode s pg = Return None pg'"
  shows "read_u64 bo r = Inr (3, drop 8 r)
         \<and> (\<exists>rs r'. stream_rings bo (unat (order_word bo (take 4 (drop 8 r)) :: 32 word))
                        (drop 12 r) = Some (rs, r')
                    \<and> pg' = pg\<lparr>Rings := Slice (map (\<lambda>(c, ps). Slice ps) rs)\<rparr>)"
proof -
  from o d obtain t r1 where t: "read_u64 bo r = Inr (t, r1)"
    by (auto simp: Polygon_decode_def split: sum.splits)
  with o d have t3: "t = 3"
    by (auto simp: Polygon_decode_def split: if_splits)
  from o d t t3 obtain cnt r2 where c: "read_u32 bo r1 = Inr (cnt, r2)"
    by (auto simp: Polygon_decode_def split: sum.splits)
  from o d t t3 c obtain rings r3 where
    run: "read_rings bo 0 (unat cnt) r2 (replicate (unat cnt) NilSlice) = (None, rings, r3)"
    and pg': "pg' = pg\<lparr>Rings := Slice rings\<rparr>"
    by (auto simp: Polygon_decode_def split: prod.splits)
  from t t3 have r1: "r1 = drop 8 r"
    by (simp add: read_u64_Inr)
  from c r1 have cnt: "cnt = order_word bo (take 4 (drop 8 r))" and r2: "r2 = drop 12 r"
    by (simp_all add: read_u32_Inr)
  from read_rings_success [OF run] t t3 r1 cnt r2 pg' show ?thesis by auto
qed

text \<open>
  An element that decodes as a LineString or a Polygon was read under type 2 or 3, with
  its count in the 4 bytes after the type.
\<close>

lemma read_geometry_body_sequences:
  assumes "read_geometry_body go r1 = Inr (g, r')"
  shows "(\<forall>l. g = GLineString l \<longrightarrow>
            (\<exists>ps. stream_points go (unat (order_word go (take 4 (drop 8 r1)) :: 32 word))
                     (drop 12 r1) = Some (ps, r')
                  \<and> Points l = Slice ps))
         \<and> (\<forall>p. g = GPolygon p \<longrightarrow>
            (\<exists>rs. stream_rings go (unat (order_word go (take 4 (drop 8 r1)) :: 32 word))
                     (drop 12 r1) = Some (rs, r')
                  \<and> Rings p = Slice (map (\<lambda>(c, ps). Slice ps) rs)))"
proof -
  from assms obtain t r2 where t: "read_u64 go r1 = Inr (t, r2)"
    by (auto simp: read_geometry_body_def split: sum.splits)
  then have r2: "r2 = drop 8 r1" by (simp add: read_u64_Inr)
  from assms t read_geometry_body_unsupported [OF t] consider "t = 1" | "t = 2" | "t = 3"
    by fastforce
  then show ?thesis
  proof cases
    case 1
    with read_geometry_body_Point [of go r1 r2 g r'] assms t show ?thesis by simp
  next
    case 2
    with read_geometry_body_LineString [of go r1 r2 g r'] assms t r2 show ?thesis by auto
  next
    case 3
    with read_geometry_body_Polygon [of go r1 r2 g r'] assms t r2 show ?thesis by auto
  qed
qed

text \<open>
  C9: when a decode returns without error, the decoded sequence is as long as the count
  field of the stream declares and holds the items in stream order. For a LineString
  the count is read after the type (and the SRID, if flagged), and point \<open>j\<close> is the
  pair at byte \<open>16 * j\<close> after the count. For a Polygon the rings are those of the
  stream in order, as many as the ring count, each as long as its own point count. For
  a collection the elements are those of the stream in order, as many as the element
  count; an element that is a LineString or a Polygon obeys its own counts likewise.
\<close>

theorem decoded_sequences_match_counts:
  "wkb_open s = Inr (bo, r) \<Longrightarrow> val \<in> {VString s, VBytes s} \<Longrightarrow>
   (LineString_Scan val ls = Return None ls' \<longrightarrow>
      (let off = (if (order_word bo (take 4 r) :: 32 word) AND 0x20000000 \<noteq> 0 then 8 else 4);
           cnt = unat (order_word bo (take 4 (drop off r)) :: 32 word);
           body = drop (off + 4) r
       in len (Points ls') = cnt
          \<and> (\<forall>j<cnt. elems (Points ls') ! j
                = \<lparr>Lng = order_word bo (take 8 (drop (16 * j) body)),
                   Lat = order_word bo (take 8 (drop (16 * j + 8) body))\<rparr>)))
   \<and> (Polygon_Scan val pg = Return None pg' \<longrightarrow>
        (\<exists>rs r'. stream_rings bo (unat (order_word bo (take 4 (drop 8 r)) :: 32 word))
                     (drop 12 r) = Some (rs, r')
                 \<and> Rings pg' = Slice (map (\<lambda>(c, ps). Slice ps) rs)
                 \<and> len (Rings pg') = unat (order_word bo (take 4 (drop 8 r)) :: 32 word)
                 \<and> (\<forall>(c, ps) \<in> set rs. length ps = unat c)))
   \<and> (GeometryCollection_Scan val gc = Return None gc' \<longrightarrow>
        (\<exists>gs r'. stream_geometries 0 (unat (order_word bo (take 4 (drop 8 r)) :: 32 word))
                     (drop 12 r) = Some (gs, r')
                 \<and> Geometries gc' = Slice gs
                 \<and> len (Geometries gc') = unat (order_word bo (take 4 (drop 8 r)) :: 32 word)))
   \<and> (read_geometry_body go r1 = Inr (g, r'') \<longrightarrow>
        (\<forall>l. g = GLineString l \<longrightarrow>
           len (Points l) = unat (order_word go (take 4 (drop 8 r1)) :: 32 word)
           \<and> stream_points go (len (Points l)) (drop 12 r1) = Some (elems (Points l), r''))
      \<and> (\<forall>p. g = GPolygon p \<longrightarrow>
           len (Rings p) = unat (order_word go (take 4 (drop 8 r1)) :: 32 word)
           \<and> (\<exists>rs. stream_rings go (len (Rings p)) (drop 12 r1) = Some (rs, r'')
                   \<and> Rings p = Slice (map (\<lambda>(c, ps). Slice ps) rs)
                   \<and> (\<forall>(c, ps) \<in> set rs. length ps = unat c))))"
proof (intro conjI impI allI)
  assume o: "wkb_open s = Inr (bo, r)" and v: "val \<in> {VString s, VBytes s}"
    and sc: "LineString_Scan val ls = Return None ls'"
  define off :: nat where
    "off = (if (order_word bo (take 4 r) :: 32 word) AND 0x20000000 \<noteq> 0 then 8 else 4)"
  define cnt where "cnt = unat (order_word bo (take 4 (drop off r)) :: 32 word)"
  define body where "body = drop (off + 4) r"
  from sc Scan_text [OF v, of _ ls] have "LineString_decode s ls = Return None ls'" by simp
  from LineString_decode_success [OF o this]
  obtain ps r' where st: "stream_points bo cnt body = Some (ps, r')"
    and ls': "ls' = ls\<lparr>Points := Slice ps\<rparr>"
    by (auto simp: Let_def off_def cnt_def body_def)
  from stream_points_length [OF st] have n: "length ps = cnt" by simp
  have "len (Points ls') = cnt
        \<and> (\<forall>j<cnt. elems (Points ls') ! j
                = \<lparr>Lng = order_word bo (take 8 (drop (16 * j) body)),
                   Lat = order_word bo (take 8 (drop (16 * j + 8) body))\<rparr>)"
    using n ls' stream_points_nth [OF st] by (simp add: len_def)
  then show "let off = (if (order_word bo (take 4 r) :: 32 word) AND 0x20000000 \<noteq> 0 then 8 else 4);
           cnt = unat (order_word bo (take 4 (drop off r)) :: 32 word);
           body = drop (off + 4) r
       in len (Points ls') = cnt
          \<and> (\<forall>j<cnt. elems (Points ls') ! j
                = \<lparr>Lng = order_word bo (take 8 (drop (16 * j) body)),
                   Lat = order_word bo (take 8 (drop (16 * j + 8) body))\<rparr>)"
    unfolding Let_def off_def cnt_def body_def .
next
  assume o: "wkb_open s = Inr (bo, r)" and v: "val \<in> {VString s, VBytes s}"
    and sc: "Polygon_Scan val pg = Return None pg'"
  from sc Scan_text [OF v, of _ _ pg] have "Polygon_decode s pg = Return None pg'" by simp
  from Polygon_decode_success [OF o this]
  obtain rs r' where
    st: "stream_rings bo (unat (order_word bo (take 4 (drop 8 r)) :: 32 word)) (drop 12 r)
           = Some (rs, r')"
    and pg': "pg' = pg\<lparr>Rings := Slice (map (\<lambda>(c, ps). Slice ps) rs)\<rparr>"
    by auto
  from stream_rings_length [OF st] pg' st
  show "\<exists>rs r'. stream_rings bo (unat (order_word bo (take 4 (drop 8 r)) :: 32 word))
                     (drop 12 r) = Some (rs, r')
                 \<and> Rings pg' = Slice (map (\<lambda>(c, ps). Slice ps) rs)
                 \<and> len (Rings pg') = unat (order_word bo (take 4 (drop 8 r)) :: 32 word)
                 \<and> (\<forall>(c, ps) \<in> set rs. length ps = unat c)"
    by (auto simp: len_def)
next
  assume o: "wkb_open s = Inr (bo, r)" and v: "val \<in> {VString s, VBytes s}"
    and sc: "GeometryCollection_Scan val gc = Return None gc'"
  from sc Scan_text [OF v, of _ _ _ gc]
  have "GeometryCollection_decode s gc = Return None gc'" by simp
  from GeometryCollection_decode_success [OF o this]
  obtain gs r' where
    st: "stream_geometries 0 (unat (order_word bo (take 4 (drop 8 r)) :: 32 word)) (drop 12 r)
           = Some (gs, r')"
    and gc': "gc' = gc\<lparr>Geometries := Slice gs\<rparr>"
    by auto
  from stream_geometries_length [OF st] gc' st
  show "\<exists>gs r'. stream_geometries 0 (unat (order_word bo (take 4 (drop 8 r)) :: 32 word))
                     (drop 12 r) = Some (gs, r')
                 \<and> Geometries gc' = Slice gs
                 \<and> len (Geometries gc') = unat (order_word bo (take 4 (drop 8 r)) :: 32 word)"
    by (auto simp: len_def)
next
  fix l
  assume b: "read_geometry_body go r1 = Inr (g, r'')" and g: "g = GLineString l"
  from read_geometry_body_sequences [OF b] g obtain ps where
    st: "stream_points go (unat (order_word go (take 4 (drop 8 r1)) :: 32 word)) (drop 12 r1)
           = Some (ps, r'')"
    and l: "Points l = Slice ps"
    by auto
  from stream_points_length [OF st] l
  show n: "len (Points l) = unat (order_word go (take 4 (drop 8 r1)) :: 32 word)"
    by (simp add: len_def)
  from st l n show "stream_points go (len (Points l)) (drop 12 r1) = Some (elems (Points l), r'')"
    by simp
next
  fix p
  assume b: "read_geometry_body go r1 = Inr (g, r'')" and g: "g = GPolygon p"
  from read_geometry_body_sequences [OF b] g obtain rs where
    st: "stream_rings go (unat (order_word go (take 4 (drop 8 r1)) :: 32 word)) (drop 12 r1)
           = Some (rs, r'')"
    and p: "Rings p = Slice (map (\<lambda>(c, ps). Slice ps) rs)"
    by auto
  from stream_rings_length [OF st] p
  show n: "len (Rings p) = unat (order_word go (take 4 (drop 8 r1)) :: 32 word)"
    by (simp add: len_def)
  from stream_rings_length [OF st] st p n
  show "\<exists>rs. stream_rings go (len (Rings p)) (drop 12 r1) = Some (rs, r'')
                   \<and> Rings p = Slice (map (\<lambda>(c, ps). Slice ps) rs)
                   \<and> (\<forall>(c, ps) \<in> set rs. length ps = unat c)"
    by auto
qed

theorem decoded_sequences_match_counts_witness:
  "LineString_Scan (VString wkb_linestring_srid) \<lparr>Points = NilSlice\<rparr>
     = Return None \<lparr>Points = Slice [\<lparr>Lng = 0x4008000000000000, Lat = 0x3FF0000000000000\<rparr>,
                  \<lparr>Lng = 0x3FF0000000000000, Lat = 0x4000000000000000\<rparr>]\<rparr>
   \<and> len (Slice [\<lparr>Lng = 0x4008000000000000, Lat = 0x3FF0000000000000\<rparr>,
                  \<lparr>Lng = 0x3FF0000000000000, Lat = 0x4000000000000000\<rparr>]) = unat (2 :: 32 word)
   \<and> Polygon_Scan (VBytes wkb_polygon) \<lparr>Rings = NilSlice\<rparr>
     = Return None \<lparr>Rings = Slice
            [Slice [\<lparr>Lng = 0x4008000000000000, Lat = 0x3FF0000000000000\<rparr>,
                    \<lparr>Lng = 0x3FF0000000000000, Lat = 0x4000000000000000\<rparr>],
             Slice [],
             Slice [\<lparr>Lng = 0x4000000000000000, Lat = 0\<rparr>]]\<rparr>
   \<and> len (Slice [Slice [\<lparr>Lng = 0x4008000000000000, Lat = 0x3FF0000000000000\<rparr>,
                    \<lparr>Lng = 0x3FF0000000000000, Lat = 0x4000000000000000\<rparr>],
             Slice [],
             Slice [\<lparr>Lng = 0x4000000000000000, Lat = 0\<rparr>]]) = unat (3 :: 32 word)
   \<and> GeometryCollection_Scan (VString wkb_collection) \<lparr>Geometries = NilSlice\<rparr>
     = Return None \<lparr>Geometries = Slice
             [GPoint \<lparr>Lng = 0x4000000000000000, Lat = 0\<rparr>,
              GLineString \<lparr>Points = Slice [\<lparr>Lng = 0, Lat = 0\<rparr>,
                \<lparr>Lng = 0x3FF0000000000000, Lat = 0x3FF0000000000000\<rparr>]\<rparr>,
              GPolygon \<lparr>Rings = Slice [Slice [\<lparr>Lng = 0x4008000000000000, Lat = 0x3FF0000000000000\<rparr>],
                Slice []]\<rparr>]\<rparr>
   \<and> len (Slice [GPoint \<lparr>Lng = 0x4000000000000000, Lat = 0\<rparr>,
              GLineString \<lparr>Points = Slice [\<lparr>Lng = 0, Lat = 0\<rparr>,
                \<lparr>Lng = 0x3FF0000000000000, Lat = 0x3FF0000000000000\<rparr>]\<rparr>,
              GPolygon \<lparr>Rings = Slice [Slice [\<lparr>Lng = 0x4008000000000000, Lat = 0x3FF0000000000000\<rparr>],
                Slice []]\<rparr>]) = unat (3 :: 32 word)
   \<and> read_geometry_body LittleEndian (drop 38 (after_marker wkb_collection))
     = Inr (GLineString \<lparr>Points = Slice [\<lparr>Lng = 0, Lat = 0\<rparr>,
                   \<lparr>Lng = 0x3FF0000000000000, Lat = 0x3FF0000000000000\<rparr>]\<rparr>,
            drop 82 (after_marker wkb_collection))
   \<and> len (Slice [\<lparr>Lng = 0, Lat = 0\<rparr>,
                   \<lparr>Lng = 0x3FF0000000000000, Lat = 0x3FF0000000000000\<rparr>]) = unat (2 :: 32 word)"
proof -
  let ?rl = "after_marker wkb_linestring_srid"
  let ?rp = "after_marker wkb_polygon"
  let ?rc = "after_marker wkb_collection"
  let ?re = "drop 38 ?rc"
  let ?el = "\<lparr>Points = Slice [\<lparr>Lng = 0, Lat = 0\<rparr>,
                   \<lparr>Lng = 0x3FF0000000000000, Lat = 0x3FF0000000000000\<rparr>]\<rparr>"
  let ?ls' = "\<lparr>Points = Slice [\<lparr>Lng = 0x4008000000000000, Lat = 0x3FF0000000000000\<rparr>,
                  \<lparr>Lng = 0x3FF0000000000000, Lat = 0x4000000000000000\<rparr>]\<rparr>"
  let ?pg' = "\<lparr>Rings = Slice [Slice [\<lparr>Lng = 0x4008000000000000, Lat = 0x3FF0000000000000\<rparr>,
                    \<lparr>Lng = 0x3FF0000000000000, Lat = 0x4000000000000000\<rparr>],
             Slice [],
             Slice [\<lparr>Lng = 0x4000000000000000, Lat = 0\<rparr>]]\<rparr>"
  let ?gc' = "\<lparr>Geometries = Slice [GPoint \<lparr>Lng = 0x4000000000000000, Lat = 0\<rparr>,
              GLineString \<lparr>Points = Slice [\<lparr>Lng = 0, Lat = 0\<rparr>,
                \<lparr>Lng = 0x3FF0000000000000, Lat = 0x3FF0000000000000\<rparr>]\<rparr>,
              GPolygon \<lparr>Rings = Slice [Slice [\<lparr>Lng = 0x4008000000000000, Lat = 0x3FF0000000000000\<rparr>],
                Slice []]\<rparr>]\<rparr>"
  have ol: "wkb_open wkb_linestring_srid = Inr (LittleEndian, ?rl)"
    and op: "wkb_open wkb_polygon = Inr (BigEndian, ?rp)"
    and oc: "wkb_open wkb_collection = Inr (LittleEndian, ?rc)"
    by code_simp+
  have l: "LineString_Scan (VString wkb_linestring_srid) \<lparr>Points = NilSlice\<rparr>
      = Return None ?ls'"
    and p: "Polygon_Scan (VBytes wkb_polygon) \<lparr>Rings = NilSlice\<rparr> = Return None ?pg'"
    and c: "GeometryCollection_Scan (VString wkb_collection) \<lparr>Geometries = NilSlice\<rparr>
      = Return None ?gc'"
    and e: "read_geometry_body LittleEndian ?re = Inr (GLineString ?el, drop 82 ?rc)"
    by code_simp+
  have cl: "(if (order_word LittleEndian (take 4 ?rl) :: 32 word) AND 0x20000000 \<noteq> 0
             then 8 else 4) = (8 :: nat)"
    by code_simp
  have nl: "(order_word LittleEndian (take 4 (drop 8 ?rl)) :: 32 word) = 2"
    and np: "(order_word BigEndian (take 4 (drop 8 ?rp)) :: 32 word) = 3"
    and nc: "(order_word LittleEndian (take 4 (drop 8 ?rc)) :: 32 word) = 3"
    and ne: "(order_word LittleEndian (take 4 (drop 8 ?re)) :: 32 word) = 2"
    by code_simp+
  have "len (Points ?ls') = unat (2 :: 32 word)"
    using decoded_sequences_match_counts
      [where s = wkb_linestring_srid and val = "VString wkb_linestring_srid"
         and ls = "\<lparr>Points = NilSlice\<rparr>" and ls' = ?ls',
       OF ol, THEN conjunct1] l
    unfolding Let_def cl nl by simp
  moreover have "len (Rings ?pg') = unat (3 :: 32 word)"
    using decoded_sequences_match_counts
      [where s = wkb_polygon and val = "VBytes wkb_polygon"
         and pg = "\<lparr>Rings = NilSlice\<rparr>" and pg' = ?pg',
       OF op, THEN conjunct2, THEN conjunct1] p
    unfolding np by auto
  moreover have "len (Geometries ?gc') = unat (3 :: 32 word)"
    using decoded_sequences_match_counts
      [where s = wkb_collection and val = "VString wkb_collection"
         and gc = "\<lparr>Geometries = NilSlice\<rparr>" and gc' = ?gc',
       OF oc, THEN conjunct2, THEN conjunct2, THEN conjunct1] c
    unfolding nc by auto
  moreover have "len (Points ?el) = unat (2 :: 32 word)"
    using decoded_sequences_match_counts
      [where s = wkb_collection and val = "VString wkb_collection" and go = LittleEndian
         and ?r1.0 = ?re and g = "GLineString ?el" and r'' = "drop 82 ?rc",
       OF oc, THEN conjunct2, THEN conjunct2, THEN conjunct2] e
    unfolding ne by auto
  ultimately show ?thesis using l p c e by simp
qed

section \<open>The reads follow the selected order\<close>

text \<open>
  The converse of the loop lemmas: where the stream holds the items, the loops read them.
\<close>

lemma order_word_64:
  "(order_word BigEndian [a, b, c, d, e, f, g, h] :: 64 word)
     = push_bit 56 (ucast a) OR push_bit 48 (ucast b) OR push_bit 40 (ucast c)
       OR push_bit 32 (ucast d) OR push_bit 24 (ucast e) OR push_bit 16 (ucast f)
       OR push_bit 8 (ucast g) OR ucast h"
  "(order_word LittleEndian [a, b, c, d, e, f, g, h] :: 64 word)
     = ucast a OR push_bit 8 (ucast b) OR push_bit 16 (ucast c) OR push_bit 24 (ucast d)
       OR push_bit 32 (ucast e) OR push_bit 40 (ucast f) OR push_bit 48 (ucast g)
       OR push_bit 56 (ucast h)"
  by (simp_all add: or.assoc or.commute or.left_commute)

lemma stream_points_read:
  "length pts = n \<Longrightarrow> i + k = n \<Longrightarrow> stream_points bo k r = Some (ps, r')
   \<Longrightarrow> read_points bo i n r pts = (None, take i pts @ ps, r')"
proof (induction k arbitrary: i r pts ps)
  case 0
  then show ?case by (simp add: read_points.simps)
next
  case (Suc k)
  from Suc.prems have lt: "i < n" by simp
  let ?p = "\<lparr>Lng = order_word bo (take 8 r), Lat = order_word bo (take 8 (drop 8 r))\<rparr>"
  from Suc.prems(3) obtain ps0 where len: "16 \<le> length r"
    and ps0: "stream_points bo k (drop 16 r) = Some (ps0, r')" and ps: "ps = ?p # ps0"
    by (auto split: if_splits option.splits)
  from len have r1: "read_f64 bo r = Inr (order_word bo (take 8 r), drop 8 r)"
    and r2: "read_f64 bo (drop 8 r) = Inr (order_word bo (take 8 (drop 8 r)), drop 16 r)"
    by (simp_all add: read_f64_Inr)
  have "length (pts[i := ?p]) = n" using Suc.prems(1) by simp
  moreover have "Suc i + k = n" using Suc.prems(2) by simp
  ultimately have rec: "read_points bo (Suc i) n (drop 16 r) (pts[i := ?p])
      = (None, take (Suc i) (pts[i := ?p]) @ ps0, r')"
    using ps0 by (rule Suc.IH)
  have tk: "take (Suc i) (pts[i := ?p]) = take i pts @ [?p]"
    using lt Suc.prems(1) by (simp add: take_Suc_conv_app_nth)
  have "read_points bo i n r pts = read_points bo (Suc i) n (drop 16 r) (pts[i := ?p])"
    using lt r1 r2 Suc.prems(1)
    by (subst read_points.simps) (simp add: Let_def Point_update_both)
  with rec tk ps show ?case by simp
qed

lemma stream_points_total:
  "16 * n \<le> length r \<Longrightarrow> \<exists>ps. stream_points bo n r = Some (ps, drop (16 * n) r)"
proof (induction n arbitrary: r)
  case 0
  then show ?case by simp
next
  case (Suc n)
  then have "16 * n \<le> length (drop 16 r)" by simp
  from Suc.IH [OF this] obtain ps where
    "stream_points bo n (drop 16 r) = Some (ps, drop (16 * n) (drop 16 r))" by blast
  with Suc.prems show ?case by (simp add: add.commute)
qed

lemma stream_rings_read:
  "length rings = n \<Longrightarrow> i + k = n \<Longrightarrow> stream_rings bo k r = Some (rs, r')
   \<Longrightarrow> read_rings bo i n r rings = (None, take i rings @ map (\<lambda>(c, ps). Slice ps) rs, r')"
proof (induction k arbitrary: i r rings rs)
  case 0
  then show ?case by (simp add: read_rings.simps)
next
  case (Suc k)
  from Suc.prems have lt: "i < n" by simp
  let ?c = "order_word bo (take 4 r) :: 32 word"
  from Suc.prems(3) obtain ps r1 rs0 where len: "4 \<le> length r"
    and ps: "stream_points bo (unat ?c) (drop 4 r) = Some (ps, r1)"
    and rs0: "stream_rings bo k r1 = Some (rs0, r')" and rs: "rs = (?c, ps) # rs0"
    by (auto split: if_splits option.splits)
  from len have c: "read_u32 bo r = Inr (?c, drop 4 r)"
    by (simp add: read_u32_Inr)
  from stream_points_read [OF _ _ ps, of "replicate (unat ?c) zero_Point" "unat ?c" 0]
  have pts: "read_points bo 0 (unat ?c) (drop 4 r) (replicate (unat ?c) zero_Point)
      = (None, ps, r1)" by simp
  have "length (rings[i := Slice ps]) = n" using Suc.prems(1) by simp
  moreover have "Suc i + k = n" using Suc.prems(2) by simp
  ultimately have rec: "read_rings bo (Suc i) n r1 (rings[i := Slice ps])
      = (None, take (Suc i) (rings[i := Slice ps]) @ map (\<lambda>(c, ps). Slice ps) rs0, r')"
    using rs0 by (rule Suc.IH)
  have tk: "take (Suc i) (rings[i := Slice ps]) = take i rings @ [Slice ps]"
    using lt Suc.prems(1) by (simp add: take_Suc_conv_app_nth)
  have "read_rings bo i n r rings = read_rings bo (Suc i) n r1 (rings[i := Slice ps])"
    using lt c pts by (subst read_rings.simps) simp
  with rec tk rs show ?case by simp
qed

lemma stream_geometries_read:
  "i + k = n \<Longrightarrow> stream_geometries i k r = Some (new, r')
   \<Longrightarrow> read_geometries i n r gs = (None, gs @ new, r')"
proof (induction k arbitrary: i r gs new)
  case 0
  then show ?case by (simp add: read_geometries.simps)
next
  case (Suc k)
  from Suc.prems have lt: "i < n" by simp
  from Suc.prems(2) obtain g r1 new0 where g: "read_geometry i r = Inr (g, r1)"
    and new0: "stream_geometries (Suc i) k r1 = Some (new0, r')" and new: "new = g # new0"
    by (auto split: sum.splits option.splits)
  have "Suc i + k = n" using Suc.prems(1) by simp
  from Suc.IH [OF this new0, of "gs @ [g]"]
  have rec: "read_geometries (Suc i) n r1 (gs @ [g]) = (None, (gs @ [g]) @ new0, r')" .
  have "read_geometries i n r gs = read_geometries (Suc i) n r1 (gs @ [g])"
    using lt g by (subst read_geometries.simps) simp
  with rec new show ?case by simp
qed

lemma wkb_open_order:
  "hex_DecodeString s = Inr (m # rest) \<Longrightarrow> m = 0 \<and> bo = BigEndian \<or> m = 1 \<and> bo = LittleEndian
   \<Longrightarrow> wkb_open s = Inr (bo, rest)"
  by (auto simp: wkb_open_marker)

lemma LineString_body_read:
  assumes "4 \<le> length r"
    and "stream_points bo (unat (order_word bo (take 4 r) :: 32 word)) (drop 4 r) = Some (ps, r')"
  shows "LineString_body bo r ls = Return None (ls\<lparr>Points := Slice ps\<rparr>)"
proof -
  let ?c = "order_word bo (take 4 r) :: 32 word"
  from assms(1) have c: "read_u32 bo r = Inr (?c, drop 4 r)"
    by (simp add: read_u32_Inr)
  from stream_points_read [OF _ _ assms(2), of "replicate (unat ?c) zero_Point" "unat ?c" 0]
  have "read_points bo 0 (unat ?c) (drop 4 r) (replicate (unat ?c) zero_Point) = (None, ps, r')"
    by simp
  with c show ?thesis by (simp add: LineString_body_def)
qed

lemma LineString_decode_mismatch:
  assumes "wkb_open s = Inr (bo, r)" and "4 \<le> length r"
    and "(order_word bo (take 4 r) :: 32 word) AND 0x1FFFFFFF \<noteq> 2"
  shows "LineString_decode s ls
           = Return (Some (TypeMismatch ''LineString'' (unat (order_word bo (take 4 r) :: 32 word)))) ls"
proof -
  from assms(2) have "read_u32 bo r = Inr (order_word bo (take 4 r), drop 4 r)"
    by (simp add: read_u32_Inr)
  from LineString_decode_tag [OF assms(1) this, of ls] assms(3) show ?thesis by simp
qed

lemma LineString_decode_read:
  assumes o: "wkb_open s = Inr (bo, r)"
    and t: "(order_word bo (take 4 r) :: 32 word) AND 0x1FFFFFFF = 2"
    and off: "off = (if (order_word bo (take 4 r) :: 32 word) AND 0x20000000 \<noteq> 0 then 8 else 4)"
    and len: "off + 4 \<le> length r"
    and st: "stream_points bo (unat (order_word bo (take 4 (drop off r)) :: 32 word))
               (drop (off + 4) r) = Some (ps, r')"
  shows "LineString_decode s ls = Return None (ls\<lparr>Points := Slice ps\<rparr>)"
proof -
  from len off have l4: "4 \<le> length r" by (simp split: if_splits)
  then have tag: "read_u32 bo r = Inr (order_word bo (take 4 r), drop 4 r)"
    by (simp add: read_u32_Inr)
  note dec = LineString_decode_tag [OF o tag, of ls]
  show ?thesis
  proof (cases "(order_word bo (take 4 r) :: 32 word) AND 0x20000000 \<noteq> 0")
    case True
    with off have o8: "off = 8" by simp
    with len have srid: "read_u32 bo (drop 4 r) = Inr (order_word bo (take 4 (drop 4 r)), drop 8 r)"
      by (simp add: read_u32_Inr)
    from len o8 have "4 \<le> length (drop 8 r)" by simp
    moreover from st o8 have "stream_points bo (unat (order_word bo (take 4 (drop 8 r)) :: 32 word))
        (drop 4 (drop 8 r)) = Some (ps, r')" by simp
    ultimately have "LineString_body bo (drop 8 r) ls = Return None (ls\<lparr>Points := Slice ps\<rparr>)"
      by (rule LineString_body_read)
    with dec t True srid show ?thesis by simp
  next
    case False
    with off have o4: "off = 4" by simp
    from len o4 have "4 \<le> length (drop 4 r)" by simp
    moreover from st o4 have "stream_points bo (unat (order_word bo (take 4 (drop 4 r)) :: 32 word))
        (drop 4 (drop 4 r)) = Some (ps, r')" by simp
    ultimately have "LineString_body bo (drop 4 r) ls = Return None (ls\<lparr>Points := Slice ps\<rparr>)"
      by (rule LineString_body_read)
    with dec t False show ?thesis by simp
  qed
qed

lemma Polygon_decode_mismatch:
  assumes "wkb_open s = Inr (bo, r)" and "8 \<le> length r"
    and "(order_word bo (take 8 r) :: 64 word) \<noteq> 3"
  shows "Polygon_decode s pg
           = Return (Some (TypeMismatch ''Polygon'' (unat (order_word bo (take 8 r) :: 64 word)))) pg"
proof -
  from assms(2) have "read_u64 bo r = Inr (order_word bo (take 8 r), drop 8 r)"
    by (simp add: read_u64_Inr)
  with assms(1,3) show ?thesis by (simp add: Polygon_decode_def)
qed

lemma Polygon_decode_read:
  assumes o: "wkb_open s = Inr (bo, r)" and len: "12 \<le> length r"
    and t: "(order_word bo (take 8 r) :: 64 word) = 3"
    and st: "stream_rings bo (unat (order_word bo (take 4 (drop 8 r)) :: 32 word)) (drop 12 r)
               = Some (rs, r')"
  shows "Polygon_decode s pg = Return None (pg\<lparr>Rings := Slice (map (\<lambda>(c, ps). Slice ps) rs)\<rparr>)"
proof -
  let ?c = "order_word bo (take 4 (drop 8 r)) :: 32 word"
  from len t have tag: "read_u64 bo r = Inr (3, drop 8 r)"
    by (simp add: read_u64_Inr)
  from len have c: "read_u32 bo (drop 8 r) = Inr (?c, drop 12 r)"
    by (simp add: read_u32_Inr)
  from stream_rings_read [OF _ _ st, of "replicate (unat ?c) NilSlice" "unat ?c" 0]
  have "read_rings bo 0 (unat ?c) (drop 12 r) (replicate (unat ?c) NilSlice)
      = (None, map (\<lambda>(c, ps). Slice ps) rs, r')" by simp
  with o tag c show ?thesis by (simp add: Polygon_decode_def)
qed

lemma GeometryCollection_decode_mismatch:
  assumes "wkb_open s = Inr (bo, r)" and "8 \<le> length r"
    and "(order_word bo (take 8 r) :: 64 word) \<noteq> 7"
  shows "GeometryCollection_decode s gc
           = Return (Some (TypeMismatch ''GeometryCollection''
                             (unat (order_word bo (take 8 r) :: 64 word)))) gc"
proof -
  from assms(2) have "read_u64 bo r = Inr (order_word bo (take 8 r), drop 8 r)"
    by (simp add: read_u64_Inr)
  with assms(1,3) show ?thesis by (simp add: GeometryCollection_decode_def)
qed

lemma GeometryCollection_decode_read:
  assumes o: "wkb_open s = Inr (bo, r)" and len: "12 \<le> length r"
    and t: "(order_word bo (take 8 r) :: 64 word) = 7"
    and st: "stream_geometries 0 (unat (order_word bo (take 4 (drop 8 r)) :: 32 word)) (drop 12 r)
               = Some (gs, r')"
  shows "GeometryCollection_decode s gc = Return None (gc\<lparr>Geometries := Slice gs\<rparr>)"
proof -
  let ?c = "order_word bo (take 4 (drop 8 r)) :: 32 word"
  from len t have tag: "read_u64 bo r = Inr (7, drop 8 r)"
    by (simp add: read_u64_Inr)
  from len have c: "read_u32 bo (drop 8 r) = Inr (?c, drop 12 r)"
    by (simp add: read_u32_Inr)
  from stream_geometries_read [OF _ st, of "unat ?c" "[]"]
  have "read_geometries 0 (unat ?c) (drop 12 r) [] = (None, gs, r')" by simp
  from GeometryCollection_decode_loop [OF o tag c this] show ?thesis .
qed

lemma read_geometry_body_read_Point:
  assumes "24 \<le> length r1" and "(order_word go (take 8 r1) :: 64 word) = 1"
  shows "read_geometry_body go r1
           = Inr (GPoint \<lparr>Lng = order_word go (take 8 (drop 8 r1)),
                          Lat = order_word go (take 8 (drop 16 r1))\<rparr>, drop 24 r1)"
proof -
  from assms have "read_u64 go r1 = Inr (1, drop 8 r1)"
    by (simp add: read_u64_Inr)
  moreover from assms(1) have "read_f64 go (drop 8 r1)
      = Inr (order_word go (take 8 (drop 8 r1)), drop 16 r1)"
    by (simp add: read_f64_Inr)
  moreover from assms(1) have "read_f64 go (drop 16 r1)
      = Inr (order_word go (take 8 (drop 16 r1)), drop 24 r1)"
    by (simp add: read_f64_Inr)
  ultimately show ?thesis by (simp add: read_geometry_body_def)
qed

lemma read_geometry_body_read_LineString:
  assumes "12 \<le> length r1" and "(order_word go (take 8 r1) :: 64 word) = 2"
    and st: "stream_points go (unat (order_word go (take 4 (drop 8 r1)) :: 32 word)) (drop 12 r1)
               = Some (ps, r')"
  shows "read_geometry_body go r1 = Inr (GLineString \<lparr>Points = Slice ps\<rparr>, r')"
proof -
  let ?c = "order_word go (take 4 (drop 8 r1)) :: 32 word"
  from assms have "read_u64 go r1 = Inr (2, drop 8 r1)"
    by (simp add: read_u64_Inr)
  moreover from assms(1) have "read_u32 go (drop 8 r1) = Inr (?c, drop 12 r1)"
    by (simp add: read_u32_Inr)
  moreover from stream_points_read [OF _ _ st, of "replicate (unat ?c) zero_Point" "unat ?c" 0]
  have "read_points go 0 (unat ?c) (drop 12 r1) (replicate (unat ?c) zero_Point) = (None, ps, r')"
    by simp
  ultimately show ?thesis by (simp add: read_geometry_body_def)
qed

lemma read_geometry_body_read_Polygon:
  assumes "12 \<le> length r1" and "(order_word go (take 8 r1) :: 64 word) = 3"
    and st: "stream_rings go (unat (order_word go (take 4 (drop 8 r1)) :: 32 word)) (drop 12 r1)
               = Some (rs, r')"
  shows "read_geometry_body go r1
           = Inr (GPolygon \<lparr>Rings = Slice (map (\<lambda>(c, ps). Slice ps) rs)\<rparr>, r')"
proof -
  let ?c = "order_word go (take 4 (drop 8 r1)) :: 32 word"
  from assms have "read_u64 go r1 = Inr (3, drop 8 r1)"
    by (simp add: read_u64_Inr)
  moreover from assms(1) have "read_u32 go (drop 8 r1) = Inr (?c, drop 12 r1)"
    by (simp add: read_u32_Inr)
  moreover from stream_rings_read [OF _ _ st, of "replicate (unat ?c) NilSlice" "unat ?c" 0]
  have "read_rings go 0 (unat ?c) (drop 12 r1) (replicate (unat ?c) NilSlice)
      = (None, map (\<lambda>(c, ps). Slice ps) rs, r')"
    by simp
  ultimately show ?thesis by (simp add: read_geometry_body_def)
qed

text \<open>
  Every read after the marker is made in the order the marker selected: the type, the
  counts and the coordinates of each of the four decoders and of each element of a
  collection, stated on the bytes of the stream.
\<close>

lemma reads_follow_order:
  "(hex_DecodeString s = Inr (m # rest) \<and> val \<in> {VString s, VBytes s}
    \<and> (m = 0 \<and> bo = BigEndian \<or> m = 1 \<and> bo = LittleEndian) \<longrightarrow>
      (24 \<le> length rest \<longrightarrow>
         Point_Scan val pt
           = Return None \<lparr>Lng = order_word bo (take 8 (drop 8 rest)),
                Lat = order_word bo (take 8 (drop 16 rest))\<rparr>)
    \<and> (4 \<le> length rest \<and> (order_word bo (take 4 rest) :: 32 word) AND 0x1FFFFFFF \<noteq> 2 \<longrightarrow>
         LineString_Scan val ls
           = Return (Some (TypeMismatch ''LineString'' (unat (order_word bo (take 4 rest) :: 32 word)))) ls)
    \<and> ((order_word bo (take 4 rest) :: 32 word) AND 0x1FFFFFFF = 2
         \<and> off = (if (order_word bo (take 4 rest) :: 32 word) AND 0x20000000 \<noteq> 0 then 8 else 4)
         \<and> off + 4 \<le> length rest
         \<and> stream_points bo (unat (order_word bo (take 4 (drop off rest)) :: 32 word))
               (drop (off + 4) rest) = Some (ps, rp) \<longrightarrow>
         LineString_Scan val ls = Return None (ls\<lparr>Points := Slice ps\<rparr>))
    \<and> (8 \<le> length rest \<and> (order_word bo (take 8 rest) :: 64 word) \<noteq> 3 \<longrightarrow>
         Polygon_Scan val pg = Return (Some (TypeMismatch ''Polygon'' (unat (order_word bo (take 8 rest) :: 64 word)))) pg)
    \<and> (12 \<le> length rest \<and> (order_word bo (take 8 rest) :: 64 word) = 3
         \<and> stream_rings bo (unat (order_word bo (take 4 (drop 8 rest)) :: 32 word))
               (drop 12 rest) = Some (rs, rq) \<longrightarrow>
         Polygon_Scan val pg
           = Return None (pg\<lparr>Rings := Slice (map (\<lambda>(c, ps). Slice ps) rs)\<rparr>))
    \<and> (8 \<le> length rest \<and> (order_word bo (take 8 rest) :: 64 word) \<noteq> 7 \<longrightarrow>
         GeometryCollection_Scan val gc
           = Return (Some (TypeMismatch ''GeometryCollection'' (unat (order_word bo (take 8 rest) :: 64 word)))) gc)
    \<and> (12 \<le> length rest \<and> (order_word bo (take 8 rest) :: 64 word) = 7
         \<and> stream_geometries 0 (unat (order_word bo (take 4 (drop 8 rest)) :: 32 word))
               (drop 12 rest) = Some (xs, rx) \<longrightarrow>
         GeometryCollection_Scan val gc = Return None (gc\<lparr>Geometries := Slice xs\<rparr>)))
   \<and> ((e = 0 \<and> eo = BigEndian \<or> e = 1 \<and> eo = LittleEndian) \<longrightarrow>
      (24 \<le> length re \<and> (order_word eo (take 8 re) :: 64 word) = 1 \<longrightarrow>
         read_geometry j (e # re)
           = Inr (GPoint \<lparr>Lng = order_word eo (take 8 (drop 8 re)),
                Lat = order_word eo (take 8 (drop 16 re))\<rparr>,
                  drop 24 re))
    \<and> (12 \<le> length re \<and> (order_word eo (take 8 re) :: 64 word) = 2
         \<and> stream_points eo (unat (order_word eo (take 4 (drop 8 re)) :: 32 word))
               (drop 12 re) = Some (eps, er) \<longrightarrow>
         read_geometry j (e # re) = Inr (GLineString \<lparr>Points = Slice eps\<rparr>, er))
    \<and> (12 \<le> length re \<and> (order_word eo (take 8 re) :: 64 word) = 3
         \<and> stream_rings eo (unat (order_word eo (take 4 (drop 8 re)) :: 32 word))
               (drop 12 re) = Some (ers, er) \<longrightarrow>
         read_geometry j (e # re)
           = Inr (GPolygon \<lparr>Rings = Slice (map (\<lambda>(c, ps). Slice ps) ers)\<rparr>, er)))
   \<and> (stream_points so n q = Some (sps, q') \<longrightarrow>
      length sps = n \<and> q' = drop (16 * n) q
      \<and> (\<forall>l<n. sps ! l = \<lparr>Lng = order_word so (take 8 (drop (16 * l) q)),
                          Lat = order_word so (take 8 (drop (16 * l + 8) q))\<rparr>))
   \<and> (16 * n \<le> length q \<longrightarrow> (\<exists>sps. stream_points so n q = Some (sps, drop (16 * n) q)))
   \<and> stream_rings so 0 q = Some ([], q)
   \<and> (4 \<le> length q \<and> w = order_word so (take 4 q)
      \<and> stream_points so (unat w) (drop 4 q) = Some (wps, qa)
      \<and> stream_rings so n qa = Some (wrs, qb) \<longrightarrow>
      stream_rings so (Suc n) q = Some ((w, wps) # wrs, qb))
   \<and> stream_geometries j 0 q = Some ([], q)
   \<and> (read_geometry j q = Inr (y, qa) \<and> stream_geometries (Suc j) n qa = Some (ys, qb) \<longrightarrow>
      stream_geometries j (Suc n) q = Some (y # ys, qb))
   \<and> (order_word BigEndian [b0, b1, b2, b3, b4, b5, b6, b7] :: 64 word)
      = push_bit 56 (ucast b0) OR push_bit 48 (ucast b1) OR push_bit 40 (ucast b2)
        OR push_bit 32 (ucast b3) OR push_bit 24 (ucast b4) OR push_bit 16 (ucast b5)
        OR push_bit 8 (ucast b6) OR ucast b7
   \<and> (order_word LittleEndian [b0, b1, b2, b3, b4, b5, b6, b7] :: 64 word)
      = ucast b0 OR push_bit 8 (ucast b1) OR push_bit 16 (ucast b2) OR push_bit 24 (ucast b3)
        OR push_bit 32 (ucast b4) OR push_bit 40 (ucast b5) OR push_bit 48 (ucast b6)
        OR push_bit 56 (ucast b7)"
proof (intro conjI impI allI)
  assume h: "hex_DecodeString s = Inr (m # rest) \<and> val \<in> {VString s, VBytes s}
    \<and> (m = 0 \<and> bo = BigEndian \<or> m = 1 \<and> bo = LittleEndian)"
  then have v: "val \<in> {VString s, VBytes s}" and hx: "hex_DecodeString s = Inr (m # rest)"
    and d: "m = 0 \<and> bo = BigEndian \<or> m = 1 \<and> bo = LittleEndian"
    by blast+
  from wkb_open_order [OF hx d] have o: "wkb_open s = Inr (bo, rest)" .
  note sc = Scan_text [OF v]
  {
    assume "24 \<le> length rest"
    from Point_decode_any_tag [OF o this, of pt] sc [of pt]
    show "Point_Scan val pt
           = Return None \<lparr>Lng = order_word bo (take 8 (drop 8 rest)),
                Lat = order_word bo (take 8 (drop 16 rest))\<rparr>"
      by simp
  }
  {
    assume "4 \<le> length rest \<and> (order_word bo (take 4 rest) :: 32 word) AND 0x1FFFFFFF \<noteq> 2"
    then have a1: "4 \<le> length rest" and a2: "(order_word bo (take 4 rest) :: 32 word) AND 0x1FFFFFFF \<noteq> 2"
      by blast+
    from LineString_decode_mismatch [OF o a1 a2]
    have "LineString_decode s ls
        = Return (Some (TypeMismatch ''LineString'' (unat (order_word bo (take 4 rest) :: 32 word)))) ls" .
    with sc [of _ ls] show "LineString_Scan val ls
           = Return (Some (TypeMismatch ''LineString'' (unat (order_word bo (take 4 rest) :: 32 word)))) ls"
      by simp
  }
  {
    assume a: "(order_word bo (take 4 rest) :: 32 word) AND 0x1FFFFFFF = 2
         \<and> off = (if (order_word bo (take 4 rest) :: 32 word) AND 0x20000000 \<noteq> 0 then 8 else 4)
         \<and> off + 4 \<le> length rest
         \<and> stream_points bo (unat (order_word bo (take 4 (drop off rest)) :: 32 word))
               (drop (off + 4) rest) = Some (ps, rp)"
    then have a1: "(order_word bo (take 4 rest) :: 32 word) AND 0x1FFFFFFF = 2"
      and a2: "off = (if (order_word bo (take 4 rest) :: 32 word) AND 0x20000000 \<noteq> 0 then 8 else 4)"
      and a3: "off + 4 \<le> length rest"
      and a4: "stream_points bo (unat (order_word bo (take 4 (drop off rest)) :: 32 word))
               (drop (off + 4) rest) = Some (ps, rp)"
      by blast+
    from LineString_decode_read [OF o a1 a2 a3 a4]
    have "LineString_decode s ls = Return None (ls\<lparr>Points := Slice ps\<rparr>)" .
    with sc [of _ ls] show "LineString_Scan val ls = Return None (ls\<lparr>Points := Slice ps\<rparr>)"
      by simp
  }
  {
    assume "8 \<le> length rest \<and> (order_word bo (take 8 rest) :: 64 word) \<noteq> 3"
    then have a1: "8 \<le> length rest" and a2: "(order_word bo (take 8 rest) :: 64 word) \<noteq> 3"
      by blast+
    from Polygon_decode_mismatch [OF o a1 a2]
    have "Polygon_decode s pg
        = Return (Some (TypeMismatch ''Polygon'' (unat (order_word bo (take 8 rest) :: 64 word)))) pg" .
    with sc [of _ _ pg] show "Polygon_Scan val pg
        = Return (Some (TypeMismatch ''Polygon'' (unat (order_word bo (take 8 rest) :: 64 word)))) pg"
      by simp
  }
  {
    assume "12 \<le> length rest \<and> (order_word bo (take 8 rest) :: 64 word) = 3
         \<and> stream_rings bo (unat (order_word bo (take 4 (drop 8 rest)) :: 32 word))
               (drop 12 rest) = Some (rs, rq)"
    then have a1: "12 \<le> length rest" and a2: "(order_word bo (take 8 rest) :: 64 word) = 3"
      and a3: "stream_rings bo (unat (order_word bo (take 4 (drop 8 rest)) :: 32 word))
               (drop 12 rest) = Some (rs, rq)"
      by blast+
    from Polygon_decode_read [OF o a1 a2 a3]
    have "Polygon_decode s pg
        = Return None (pg\<lparr>Rings := Slice (map (\<lambda>(c, ps). Slice ps) rs)\<rparr>)" .
    with sc [of _ _ pg] show "Polygon_Scan val pg
           = Return None (pg\<lparr>Rings := Slice (map (\<lambda>(c, ps). Slice ps) rs)\<rparr>)"
      by simp
  }
  {
    assume "8 \<le> length rest \<and> (order_word bo (take 8 rest) :: 64 word) \<noteq> 7"
    then have a1: "8 \<le> length rest" and a2: "(order_word bo (take 8 rest) :: 64 word) \<noteq> 7"
      by blast+
    from GeometryCollection_decode_mismatch [OF o a1 a2]
    have "GeometryCollection_decode s gc
        = Return (Some (TypeMismatch ''GeometryCollection'' (unat (order_word bo (take 8 rest) :: 64 word)))) gc" .
    with sc [of _ _ _ gc] show "GeometryCollection_Scan val gc
           = Return (Some (TypeMismatch ''GeometryCollection'' (unat (order_word bo (take 8 rest) :: 64 word)))) gc"
      by simp
  }
  {
    assume "12 \<le> length rest \<and> (order_word bo (take 8 rest) :: 64 word) = 7
         \<and> stream_geometries 0 (unat (order_word bo (take 4 (drop 8 rest)) :: 32 word))
               (drop 12 rest) = Some (xs, rx)"
    then have a1: "12 \<le> length rest" and a2: "(order_word bo (take 8 rest) :: 64 word) = 7"
      and a3: "stream_geometries 0 (unat (order_word bo (take 4 (drop 8 rest)) :: 32 word))
               (drop 12 rest) = Some (xs, rx)"
      by blast+
    from GeometryCollection_decode_read [OF o a1 a2 a3]
    have "GeometryCollection_decode s gc = Return None (gc\<lparr>Geometries := Slice xs\<rparr>)" .
    with sc [of _ _ _ gc]
    show "GeometryCollection_Scan val gc = Return None (gc\<lparr>Geometries := Slice xs\<rparr>)"
      by simp
  }
next
  assume e: "e = 0 \<and> eo = BigEndian \<or> e = 1 \<and> eo = LittleEndian"
  then have body: "read_geometry j (e # re) = read_geometry_body eo re"
    by (auto simp: read_geometry_marker)
  {
    assume "24 \<le> length re \<and> (order_word eo (take 8 re) :: 64 word) = 1"
    then have a1: "24 \<le> length re" and a2: "(order_word eo (take 8 re) :: 64 word) = 1"
      by blast+
    from read_geometry_body_read_Point [OF a1 a2]
    show "read_geometry j (e # re)
           = Inr (GPoint \<lparr>Lng = order_word eo (take 8 (drop 8 re)),
                Lat = order_word eo (take 8 (drop 16 re))\<rparr>,
                  drop 24 re)"
      unfolding body .
  }
  {
    assume "12 \<le> length re \<and> (order_word eo (take 8 re) :: 64 word) = 2
         \<and> stream_points eo (unat (order_word eo (take 4 (drop 8 re)) :: 32 word))
               (drop 12 re) = Some (eps, er)"
    then have a1: "12 \<le> length re" and a2: "(order_word eo (take 8 re) :: 64 word) = 2"
      and a3: "stream_points eo (unat (order_word eo (take 4 (drop 8 re)) :: 32 word))
               (drop 12 re) = Some (eps, er)"
      by blast+
    from read_geometry_body_read_LineString [OF a1 a2 a3]
    show "read_geometry j (e # re) = Inr (GLineString \<lparr>Points = Slice eps\<rparr>, er)"
      unfolding body .
  }
  {
    assume "12 \<le> length re \<and> (order_word eo (take 8 re) :: 64 word) = 3
         \<and> stream_rings eo (unat (order_word eo (take 4 (drop 8 re)) :: 32 word))
               (drop 12 re) = Some (ers, er)"
    then have a1: "12 \<le> length re" and a2: "(order_word eo (take 8 re) :: 64 word) = 3"
      and a3: "stream_rings eo (unat (order_word eo (take 4 (drop 8 re)) :: 32 word))
               (drop 12 re) = Some (ers, er)"
      by blast+
    from read_geometry_body_read_Polygon [OF a1 a2 a3]
    show "read_geometry j (e # re)
           = Inr (GPolygon \<lparr>Rings = Slice (map (\<lambda>(c, ps). Slice ps) ers)\<rparr>, er)"
      unfolding body .
  }
next
  assume st: "stream_points so n q = Some (sps, q')"
  from stream_points_length [OF st] show "length sps = n" and "q' = drop (16 * n) q"
    by simp_all
  fix l assume "l < n"
  with stream_points_nth [OF st]
  show "sps ! l = \<lparr>Lng = order_word so (take 8 (drop (16 * l) q)),
                          Lat = order_word so (take 8 (drop (16 * l + 8) q))\<rparr>"
    by simp
next
  assume "16 * n \<le> length q"
  then show "\<exists>sps. stream_points so n q = Some (sps, drop (16 * n) q)"
    by (rule stream_points_total)
next
  show "stream_rings so 0 q = Some ([], q)" by simp
next
  assume "4 \<le> length q \<and> w = order_word so (take 4 q)
      \<and> stream_points so (unat w) (drop 4 q) = Some (wps, qa)
      \<and> stream_rings so n qa = Some (wrs, qb)"
  then show "stream_rings so (Suc n) q = Some ((w, wps) # wrs, qb)"
    by clarsimp
next
  show "stream_geometries j 0 q = Some ([], q)" by simp
next
  assume "read_geometry j q = Inr (y, qa) \<and> stream_geometries (Suc j) n qa = Some (ys, qb)"
  then show "stream_geometries j (Suc n) q = Some (y # ys, qb)"
    by clarsimp
next
  show "(order_word BigEndian [b0, b1, b2, b3, b4, b5, b6, b7] :: 64 word)
      = push_bit 56 (ucast b0) OR push_bit 48 (ucast b1) OR push_bit 40 (ucast b2)
        OR push_bit 32 (ucast b3) OR push_bit 24 (ucast b4) OR push_bit 16 (ucast b5)
        OR push_bit 8 (ucast b6) OR ucast b7"
    by (rule order_word_64)
next
  show "(order_word LittleEndian [b0, b1, b2, b3, b4, b5, b6, b7] :: 64 word)
      = ucast b0 OR push_bit 8 (ucast b1) OR push_bit 16 (ucast b2) OR push_bit 24 (ucast b3)
        OR push_bit 32 (ucast b4) OR push_bit 40 (ucast b5) OR push_bit 48 (ucast b6)
        OR push_bit 56 (ucast b7)"
    by (rule order_word_64)
qed

text \<open>
  C3: the marker byte 0 selects big-endian reads and 1 little-endian reads, and any other
  marker makes each of the four decoders fail with \<open>InvalidByteOrder\<close>, the receiver
  untouched. After a marker 0 or 1 every decoder reads its type, its counts and its
  coordinates in the order selected: the results are given on the bytes of the stream,
  with big-endian putting the first byte of a field highest and little-endian lowest.
  Each element of a collection resolves its own marker in the same way and reads its
  type and body in its own order; when the elements before element \<open>k\<close> decode and
  the marker of element \<open>k\<close> is neither 0 nor 1, the whole decode fails with
  \<open>InvalidByteOrder\<close> for element \<open>k\<close>.
\<close>

theorem byte_order_marker_resolution:
  "((hex_DecodeString s = Inr (m # rest) \<longrightarrow>
      wkb_open s = (if m = 0 then Inr (BigEndian, rest)
                    else if m = 1 then Inr (LittleEndian, rest)
                    else Inl (InvalidByteOrder m None)))
   \<and> (wkb_open s = Inl (InvalidByteOrder m None) \<and> val \<in> {VString s, VBytes s} \<longrightarrow>
        Point_Scan val pt = Return (Some (InvalidByteOrder m None)) pt
        \<and> LineString_Scan val ls = Return (Some (InvalidByteOrder m None)) ls
        \<and> Polygon_Scan val pg = Return (Some (InvalidByteOrder m None)) pg
        \<and> GeometryCollection_Scan val gc = Return (Some (InvalidByteOrder m None)) gc)
   \<and> read_geometry i (g # r1) =
        (if g = 0 then read_geometry_body BigEndian r1
         else if g = 1 then read_geometry_body LittleEndian r1
         else Inl (InvalidByteOrder g (Some i)))
   \<and> (wkb_open s = Inr (bo, r) \<and> read_u64 bo r = Inr (7, r2) \<and> read_u32 bo r2 = Inr (cnt, r3)
        \<and> k < unat cnt \<and> read_geometries 0 k r3 [] = (None, gs, g # r1)
        \<and> g \<noteq> 0 \<and> g \<noteq> 1 \<and> val \<in> {VString s, VBytes s} \<longrightarrow>
        GeometryCollection_Scan val gc
          = Return (Some (InvalidByteOrder g (Some k))) (gc\<lparr>Geometries := Slice gs\<rparr>))
   \<and> (order_word BigEndian [a, b, c, d] :: 32 word)
        = push_bit 24 (ucast a) OR push_bit 16 (ucast b) OR push_bit 8 (ucast c) OR ucast d
   \<and> (order_word LittleEndian [a, b, c, d] :: 32 word)
        = ucast a OR push_bit 8 (ucast b) OR push_bit 16 (ucast c) OR push_bit 24 (ucast d))
   \<and> ((hex_DecodeString s = Inr (m # rest) \<and> val \<in> {VString s, VBytes s}
    \<and> (m = 0 \<and> bo = BigEndian \<or> m = 1 \<and> bo = LittleEndian) \<longrightarrow>
      (24 \<le> length rest \<longrightarrow>
         Point_Scan val pt
           = Return None \<lparr>Lng = order_word bo (take 8 (drop 8 rest)),
                Lat = order_word bo (take 8 (drop 16 rest))\<rparr>)
    \<and> (4 \<le> length rest \<and> (order_word bo (take 4 rest) :: 32 word) AND 0x1FFFFFFF \<noteq> 2 \<longrightarrow>
         LineString_Scan val ls
           = Return (Some (TypeMismatch ''LineString'' (unat (order_word bo (take 4 rest) :: 32 word)))) ls)
    \<and> ((order_word bo (take 4 rest) :: 32 word) AND 0x1FFFFFFF = 2
         \<and> off = (if (order_word bo (take 4 rest) :: 32 word) AND 0x20000000 \<noteq> 0 then 8 else 4)
         \<and> off + 4 \<le> length rest
         \<and> stream_points bo (unat (order_word bo (take 4 (drop off rest)) :: 32 word))
               (drop (off + 4) rest) = Some (ps, rp) \<longrightarrow>
         LineString_Scan val ls = Return None (ls\<lparr>Points := Slice ps\<rparr>))
    \<and> (8 \<le> length rest \<and> (order_word bo (take 8 rest) :: 64 word) \<noteq> 3 \<longrightarrow>
         Polygon_Scan val pg = Return (Some (TypeMismatch ''Polygon'' (unat (order_word bo (take 8 rest) :: 64 word)))) pg)
    \<and> (12 \<le> length rest \<and> (order_word bo (take 8 rest) :: 64 word) = 3
         \<and> stream_rings bo (unat (order_word bo (take 4 (drop 8 rest)) :: 32 word))
               (drop 12 rest) = Some (rs, rq) \<longrightarrow>
         Polygon_Scan val pg
           = Return None (pg\<lparr>Rings := Slice (map (\<lambda>(c, ps). Slice ps) rs)\<rparr>))
    \<and> (8 \<le> length rest \<and> (order_word bo (take 8 rest) :: 64 word) \<noteq> 7 \<longrightarrow>
         GeometryCollection_Scan val gc
           = Return (Some (TypeMismatch ''GeometryCollection'' (unat (order_word bo (take 8 rest) :: 64 word)))) gc)
    \<and> (12 \<le> length rest \<and> (order_word bo (take 8 rest) :: 64 word) = 7
         \<and> stream_geometries 0 (unat (order_word bo (take 4 (drop 8 rest)) :: 32 word))
               (drop 12 rest) = Some (xs, rx) \<longrightarrow>
         GeometryCollection_Scan val gc = Return None (gc\<lparr>Geometries := Slice xs\<rparr>)))
   \<and> ((e = 0 \<and> eo = BigEndian \<or> e = 1 \<and> eo = LittleEndian) \<longrightarrow>
      (24 \<le> length re \<and> (order_word eo (take 8 re) :: 64 word) = 1 \<longrightarrow>
         read_geometry j (e # re)
           = Inr (GPoint \<lparr>Lng = order_word eo (take 8 (drop 8 re)),
                Lat = order_word eo (take 8 (drop 16 re))\<rparr>,
                  drop 24 re))
    \<and> (12 \<le> length re \<and> (order_word eo (take 8 re) :: 64 word) = 2
         \<and> stream_points eo (unat (order_word eo (take 4 (drop 8 re)) :: 32 word))
               (drop 12 re) = Some (eps, er) \<longrightarrow>
         read_geometry j (e # re) = Inr (GLineString \<lparr>Points = Slice eps\<rparr>, er))
    \<and> (12 \<le> length re \<and> (order_word eo (take 8 re) :: 64 word) = 3
         \<and> stream_rings eo (unat (order_word eo (take 4 (drop 8 re)) :: 32 word))
               (drop 12 re) = Some (ers, er) \<longrightarrow>
         read_geometry j (e # re)
           = Inr (GPolygon \<lparr>Rings = Slice (map (\<lambda>(c, ps). Slice ps) ers)\<rparr>, er)))
   \<and> (stream_points so n q = Some (sps, q') \<longrightarrow>
      length sps = n \<and> q' = drop (16 * n) q
      \<and> (\<forall>l<n. sps ! l = \<lparr>Lng = order_word so (take 8 (drop (16 * l) q)),
                          Lat = order_word so (take 8 (drop (16 * l + 8) q))\<rparr>))
   \<and> (16 * n \<le> length q \<longrightarrow> (\<exists>sps. stream_points so n q = Some (sps, drop (16 * n) q)))
   \<and> stream_rings so 0 q = Some ([], q)
   \<and> (4 \<le> length q \<and> w = order_word so (take 4 q)
      \<and> stream_points so (unat w) (drop 4 q) = Some (wps, qa)
      \<and> stream_rings so n qa = Some (wrs, qb) \<longrightarrow>
      stream_rings so (Suc n) q = Some ((w, wps) # wrs, qb))
   \<and> stream_geometries j 0 q = Some ([], q)
   \<and> (read_geometry j q = Inr (y, qa) \<and> stream_geometries (Suc j) n qa = Some (ys, qb) \<longrightarrow>
      stream_geometries j (Suc n) q = Some (y # ys, qb))
   \<and> (order_word BigEndian [b0, b1, b2, b3, b4, b5, b6, b7] :: 64 word)
      = push_bit 56 (ucast b0) OR push_bit 48 (ucast b1) OR push_bit 40 (ucast b2)
        OR push_bit 32 (ucast b3) OR push_bit 24 (ucast b4) OR push_bit 16 (ucast b5)
        OR push_bit 8 (ucast b6) OR ucast b7
   \<and> (order_word LittleEndian [b0, b1, b2, b3, b4, b5, b6, b7] :: 64 word)
      = ucast b0 OR push_bit 8 (ucast b1) OR push_bit 16 (ucast b2) OR push_bit 24 (ucast b3)
        OR push_bit 32 (ucast b4) OR push_bit 40 (ucast b5) OR push_bit 48 (ucast b6)
        OR push_bit 56 (ucast b7))"
  by (rule conjI [OF marker_switch reads_follow_order])

theorem byte_order_marker_resolution_witness:
  "wkb_open wkb_collection = Inr (LittleEndian, after_marker wkb_collection)
   \<and> wkb_open wkb_polygon = Inr (BigEndian, after_marker wkb_polygon)
   \<and> Point_Scan (VString ''0201'') zero_Point = Return (Some (InvalidByteOrder 2 None)) zero_Point
   \<and> Polygon_Scan (VBytes ''0201'') \<lparr>Rings = NilSlice\<rparr>
       = Return (Some (InvalidByteOrder 2 None)) \<lparr>Rings = NilSlice\<rparr>
   \<and> GeometryCollection_Scan (VString wkb_collection_marker) \<lparr>Geometries = NilSlice\<rparr>
       = Return (Some (InvalidByteOrder 2 (Some 1)))
           \<lparr>Geometries = Slice [GPoint \<lparr>Lng = 0x4000000000000000, Lat = 0\<rparr>]\<rparr>
   \<and> Point_Scan (VString wkb_point_be) zero_Point
       = Return None \<lparr>Lng = 0x402695B350912800, Lat = 0x4045E26088638812\<rparr>
   \<and> Point_Scan (VString wkb_point_le) zero_Point
       = Return None \<lparr>Lng = 0x402695B350912800, Lat = 0x4045E26088638812\<rparr>
   \<and> Polygon_Scan (VBytes wkb_polygon) \<lparr>Rings = NilSlice\<rparr>
       = Return None \<lparr>Rings = Slice
           [Slice [\<lparr>Lng = 0x4008000000000000, Lat = 0x3FF0000000000000\<rparr>,
                   \<lparr>Lng = 0x3FF0000000000000, Lat = 0x4000000000000000\<rparr>],
            Slice [],
            Slice [\<lparr>Lng = 0x4000000000000000, Lat = 0\<rparr>]]\<rparr>
   \<and> read_geometry 0 (0 # drop 13 (after_marker wkb_collection))
       = Inr (GPoint \<lparr>Lng = 0x4000000000000000, Lat = 0\<rparr>,
              drop 37 (after_marker wkb_collection))"
proof -
  let ?r = "after_marker wkb_collection_marker"
  let ?gs = "[GPoint \<lparr>Lng = 0x4000000000000000, Lat = 0\<rparr>]"
  let ?rb = "after_marker wkb_point_be" and ?rl = "after_marker wkb_point_le"
  let ?rp = "after_marker wkb_polygon"
  let ?re = "drop 13 (after_marker wkb_collection)"
  let ?rs = "[(2, [\<lparr>Lng = 0x4008000000000000, Lat = 0x3FF0000000000000\<rparr>,
                   \<lparr>Lng = 0x3FF0000000000000, Lat = 0x4000000000000000\<rparr>]),
              (0, []),
              (1, [\<lparr>Lng = 0x4000000000000000, Lat = 0\<rparr>])]
             :: (32 word \<times> Point list) list"
  have hc: "hex_DecodeString wkb_collection = Inr (1 # after_marker wkb_collection)"
    and hp: "hex_DecodeString wkb_polygon = Inr (0 # ?rp)"
    and hb: "hex_DecodeString wkb_point_be = Inr (0 # ?rb)"
    and hl: "hex_DecodeString wkb_point_le = Inr (1 # ?rl)"
    by code_simp+
  have bad: "wkb_open ''0201'' = Inl (InvalidByteOrder 2 None)"
    by code_simp
  have c: "wkb_open wkb_collection = Inr (LittleEndian, after_marker wkb_collection)"
    using byte_order_marker_resolution
      [where s = wkb_collection and m = 1 and rest = "after_marker wkb_collection",
       THEN conjunct1, THEN conjunct1] hc
    by simp
  have p: "wkb_open wkb_polygon = Inr (BigEndian, ?rp)"
    using byte_order_marker_resolution
      [where s = wkb_polygon and m = 0 and rest = ?rp, THEN conjunct1, THEN conjunct1] hp
    by simp
  note outer = byte_order_marker_resolution
    [where s = "''0201''" and m = 2, THEN conjunct1, THEN conjunct2, THEN conjunct1, rule_format]
  have pt: "Point_Scan (VString ''0201'') zero_Point
      = Return (Some (InvalidByteOrder 2 None)) zero_Point"
    using outer [of "VString ''0201''" zero_Point] bad by simp
  have pg: "Polygon_Scan (VBytes ''0201'') \<lparr>Rings = NilSlice\<rparr>
      = Return (Some (InvalidByteOrder 2 None)) \<lparr>Rings = NilSlice\<rparr>"
    using outer [of "VBytes ''0201''" _ _ "\<lparr>Rings = NilSlice\<rparr>"] bad by simp
  have opened: "wkb_open wkb_collection_marker = Inr (LittleEndian, ?r)"
    and ty: "read_u64 LittleEndian ?r = Inr (7, drop 8 ?r)"
    and cnt: "read_u32 LittleEndian (drop 8 ?r) = Inr (2, drop 12 ?r)"
    and run: "read_geometries 0 1 (drop 12 ?r) [] = (None, ?gs, [2])"
    by code_simp+
  have one: "(1::nat) < unat (2 :: 32 word)"
    by simp
  have gc: "GeometryCollection_Scan (VString wkb_collection_marker) \<lparr>Geometries = NilSlice\<rparr>
      = Return (Some (InvalidByteOrder 2 (Some 1))) \<lparr>Geometries = Slice ?gs\<rparr>"
    using byte_order_marker_resolution
      [where s = wkb_collection_marker and bo = LittleEndian and r = ?r
         and ?r2.0 = "drop 8 ?r" and cnt = 2 and ?r3.0 = "drop 12 ?r" and k = 1
         and gs = ?gs and g = 2 and ?r1.0 = "[]" and val = "VString wkb_collection_marker"
         and gc = "\<lparr>Geometries = NilSlice\<rparr>",
       THEN conjunct1, THEN conjunct2, THEN conjunct2, THEN conjunct2, THEN conjunct1]
      opened ty cnt run one
    by simp
  have lb: "24 \<le> length ?rb" and ll: "24 \<le> length ?rl" and lp: "12 \<le> length ?rp"
    and le: "24 \<le> length ?re"
    by code_simp+
  have vb: "order_word BigEndian (take 8 (drop 8 ?rb)) = (0x402695B350912800 :: 64 word)"
      "order_word BigEndian (take 8 (drop 16 ?rb)) = (0x4045E26088638812 :: 64 word)"
    and vl: "order_word LittleEndian (take 8 (drop 8 ?rl)) = (0x402695B350912800 :: 64 word)"
      "order_word LittleEndian (take 8 (drop 16 ?rl)) = (0x4045E26088638812 :: 64 word)"
    and tp: "order_word BigEndian (take 8 ?rp) = (3 :: 64 word)"
    and sp: "stream_rings BigEndian (unat (order_word BigEndian (take 4 (drop 8 ?rp)) :: 32 word))
               (drop 12 ?rp) = Some (?rs, [])"
    and te: "order_word BigEndian (take 8 ?re) = (1 :: 64 word)"
    and ve: "order_word BigEndian (take 8 (drop 8 ?re)) = (0x4000000000000000 :: 64 word)"
      "order_word BigEndian (take 8 (drop 16 ?re)) = (0 :: 64 word)"
      "drop 24 ?re = drop 37 (after_marker wkb_collection)"
    by code_simp+
  have Hb: "hex_DecodeString wkb_point_be = Inr (0 # ?rb)
      \<and> VString wkb_point_be \<in> {VString wkb_point_be, VBytes wkb_point_be}
      \<and> ((0::byte) = 0 \<and> BigEndian = BigEndian \<or> (0::byte) = 1 \<and> BigEndian = LittleEndian)"
    using hb by simp
  have Hl: "hex_DecodeString wkb_point_le = Inr (1 # ?rl)
      \<and> VString wkb_point_le \<in> {VString wkb_point_le, VBytes wkb_point_le}
      \<and> ((1::byte) = 0 \<and> LittleEndian = BigEndian \<or> (1::byte) = 1 \<and> LittleEndian = LittleEndian)"
    using hl by simp
  have Hp: "hex_DecodeString wkb_polygon = Inr (0 # ?rp)
      \<and> VBytes wkb_polygon \<in> {VString wkb_polygon, VBytes wkb_polygon}
      \<and> ((0::byte) = 0 \<and> BigEndian = BigEndian \<or> (0::byte) = 1 \<and> BigEndian = LittleEndian)"
    using hp by simp
  have pb: "Point_Scan (VString wkb_point_be) zero_Point
      = Return None \<lparr>Lng = 0x402695B350912800, Lat = 0x4045E26088638812\<rparr>"
    using byte_order_marker_resolution
      [where s = wkb_point_be and m = 0 and rest = ?rb and val = "VString wkb_point_be"
         and bo = BigEndian and pt = zero_Point,
       THEN conjunct2, THEN conjunct1, THEN mp, THEN conjunct1, THEN mp, OF Hb lb]
    unfolding vb .
  have pl: "Point_Scan (VString wkb_point_le) zero_Point
      = Return None \<lparr>Lng = 0x402695B350912800, Lat = 0x4045E26088638812\<rparr>"
    using byte_order_marker_resolution
      [where s = wkb_point_le and m = 1 and rest = ?rl and val = "VString wkb_point_le"
         and bo = LittleEndian and pt = zero_Point,
       THEN conjunct2, THEN conjunct1, THEN mp, THEN conjunct1, THEN mp, OF Hl ll]
    unfolding vl .
  have G: "12 \<le> length ?rp \<and> order_word BigEndian (take 8 ?rp) = (3 :: 64 word)
      \<and> stream_rings BigEndian (unat (order_word BigEndian (take 4 (drop 8 ?rp)) :: 32 word))
            (drop 12 ?rp) = Some (?rs, [])"
    using lp tp sp by simp
  have pp: "Polygon_Scan (VBytes wkb_polygon) \<lparr>Rings = NilSlice\<rparr>
      = Return None (\<lparr>Rings = NilSlice\<rparr>\<lparr>Rings := Slice (map (\<lambda>(c, ps). Slice ps) ?rs)\<rparr>)"
    using byte_order_marker_resolution
      [where s = wkb_polygon and m = 0 and rest = ?rp and val = "VBytes wkb_polygon"
         and bo = BigEndian and pg = "\<lparr>Rings = NilSlice\<rparr>" and rs = ?rs and rq = "[]",
       THEN conjunct2, THEN conjunct1, THEN mp, THEN conjunct2, THEN conjunct2,
       THEN conjunct2, THEN conjunct2, THEN conjunct1, THEN mp, OF Hp G] .
  have E: "(0::byte) = 0 \<and> BigEndian = BigEndian \<or> (0::byte) = 1 \<and> BigEndian = LittleEndian"
    by simp
  have E1: "24 \<le> length ?re \<and> order_word BigEndian (take 8 ?re) = (1 :: 64 word)"
    using le te by simp
  have el: "read_geometry 0 (0 # ?re)
      = Inr (GPoint \<lparr>Lng = 0x4000000000000000, Lat = 0\<rparr>,
             drop 37 (after_marker wkb_collection))"
    using byte_order_marker_resolution
      [where e = 0 and eo = BigEndian and re = ?re and j = 0,
       THEN conjunct2, THEN conjunct2, THEN conjunct1, THEN mp, THEN conjunct1, THEN mp,
       OF E E1]
    unfolding ve .
  from c p pt pg gc pb pl pp el show ?thesis by simp
qed

end
